theory Spec2Isabelle
  imports Complex_Main "HOL-Library.Monad_Syntax"
begin

section \<open>Prompt resolution: the \<open>/generate\<close> route\<close>

text \<open>
  The route handler with the category table (\<open>src/unnamed/part_004\<close>:
  \<open>generateModelWithAI\<close>, lines 33-102, and \<open>POST\<close>, lines 104-140) is embedded
  here. JavaScript strings are modelled as \<open>string\<close>; the model covers ASCII text,
  for which \<open>toLowerCase\<close> only maps \<open>A\<close>..\<open>Z\<close> to \<open>a\<close>..\<open>z\<close>.
\<close>

subsection \<open>Strings\<close>

definition toLowerCase :: "string \<Rightarrow> string" where
  "toLowerCase s =
     map (\<lambda>c. case map_of (zip ''ABCDEFGHIJKLMNOPQRSTUVWXYZ'' ''abcdefghijklmnopqrstuvwxyz'') c of
                 Some d \<Rightarrow> d
               | None \<Rightarrow> c) s"

text \<open>\<open>s.split(sep)\<close> for a one-character separator: empty pieces are kept.\<close>

fun split_str :: "char \<Rightarrow> string \<Rightarrow> string list" where
  "split_str sep [] = [[]]"
| "split_str sep (c # cs) =
     (if c = sep then [] # split_str sep cs
      else (case split_str sep cs of
              piece # pieces \<Rightarrow> (c # piece) # pieces
            | [] \<Rightarrow> [[c]]))"

text \<open>\<open>s.includes(t)\<close> on strings: \<open>t\<close> occurs in \<open>s\<close> as a contiguous piece.\<close>

fun includes_str :: "string \<Rightarrow> string \<Rightarrow> bool" where
  "includes_str [] t = (t = [])"
| "includes_str (c # cs) t = (take (length t) (c # cs) = t \<or> includes_str cs t)"

subsection \<open>Values produced by \<open>JSON.parse\<close>\<close>

text \<open>
  The reply of the text-completion service is parsed with \<open>JSON.parse\<close> and then used
  without any type check, so the model keeps every shape a parsed value can have. Of a
  number the code only observes whether it is zero. An object is the list of its
  properties, each name once.
\<close>

datatype json =
    JNull
  | JBool bool
  | JNum int
  | JStr string
  | JArr "json list"
  | JObj "(string \<times> json) list"

text \<open>\<open>Boolean(v)\<close>.\<close>

fun truthy :: "json \<Rightarrow> bool" where
  "truthy JNull = False"
| "truthy (JBool b) = b"
| "truthy (JNum n) = (n \<noteq> 0)"
| "truthy (JStr s) = (s \<noteq> [])"
| "truthy (JArr xs) = True"
| "truthy (JObj kvs) = True"

text \<open>
  \<open>v.keywords\<close> and \<open>v.mainCategory\<close>: reading a property of \<open>null\<close> throws a
  TypeError (outer \<open>None\<close>); a value without the property gives \<open>undefined\<close>
  (inner \<open>None\<close>).
\<close>

fun getProp :: "json \<Rightarrow> string \<Rightarrow> json option option" where
  "getProp JNull k = None"
| "getProp (JObj kvs) k = Some (map_of kvs k)"
| "getProp v k = Some None"

text \<open>
  The spread \<open>...v\<close> inside an array literal: an array gives its elements, a string
  its characters, anything else is not iterable and throws.
\<close>

fun spread :: "json \<Rightarrow> json list option" where
  "spread (JArr xs) = Some xs"
| "spread (JStr s) = Some (map (\<lambda>c. JStr [c]) s)"
| "spread v = None"

text \<open>\<open>keyword.toLowerCase()\<close> exists on strings only; on any other value the call throws.\<close>

fun asString :: "json \<Rightarrow> string option" where
  "asString (JStr s) = Some s"
| "asString v = None"

subsection \<open>The static tables\<close>

definition fallbackModels :: "(string \<times> string) list" where
  "fallbackModels =
    [(''cube'', ''https://raw.githubusercontent.com/KhronosGroup/glTF-Sample-Models/master/2.0/Box/glTF/Box.gltf''),
     (''fish'', ''https://raw.githubusercontent.com/KhronosGroup/glTF-Sample-Models/master/2.0/Duck/glTF/Duck.gltf''),
     (''dragon'', ''https://raw.githubusercontent.com/KhronosGroup/glTF-Sample-Models/master/2.0/Dragon/glTF/Dragon.gltf''),
     (''robot'', ''https://raw.githubusercontent.com/KhronosGroup/glTF-Sample-Models/master/2.0/BrainStem/glTF/BrainStem.gltf''),
     (''lantern'', ''https://raw.githubusercontent.com/KhronosGroup/glTF-Sample-Models/master/2.0/Lantern/glTF/Lantern.gltf''),
     (''animal'', ''https://raw.githubusercontent.com/KhronosGroup/glTF-Sample-Models/master/2.0/Fox/glTF/Fox.gltf''),
     (''human'', ''https://raw.githubusercontent.com/KhronosGroup/glTF-Sample-Models/master/2.0/Soldier/glTF/Soldier.gltf''),
     (''vehicle'', ''https://raw.githubusercontent.com/KhronosGroup/glTF-Sample-Models/master/2.0/CesiumMilkTruck/glTF/CesiumMilkTruck.gltf''),
     (''default'', ''https://raw.githubusercontent.com/KhronosGroup/glTF-Sample-Models/master/2.0/Box/glTF/Box.gltf'')]"

text \<open>\<open>Object.entries(modelCategories)\<close> lists the categories in this order.\<close>

definition modelCategories :: "(string \<times> string list) list" where
  "modelCategories =
    [(''fish'', [''fish'', ''swimming'', ''aquatic'', ''marine'', ''sea'', ''ocean'', ''water'']),
     (''dragon'', [''dragon'', ''mythical'', ''fantasy'', ''flying'', ''creature'', ''magical'', ''wings'']),
     (''robot'', [''robot'', ''mechanical'', ''machine'', ''android'', ''tech'', ''futuristic'', ''artificial'']),
     (''lantern'', [''lantern'', ''light'', ''lamp'', ''illumination'', ''glow'', ''lighting'']),
     (''animal'', [''animal'', ''creature'', ''beast'', ''wildlife'', ''nature'', ''living'']),
     (''human'', [''human'', ''person'', ''man'', ''woman'', ''figure'', ''character'', ''humanoid'']),
     (''vehicle'', [''vehicle'', ''car'', ''truck'', ''transport'', ''automobile'', ''transportation'']),
     (''cube'', [''cube'', ''box'', ''square'', ''geometric'', ''simple''])]"

text \<open>\<open>fallbackModels.default\<close>.\<close>

definition fallbackModels_default :: string where
  "fallbackModels_default = (case map_of fallbackModels ''default'' of Some u \<Rightarrow> u | None \<Rightarrow> [])"

text \<open>\<open>fallbackModels[modelType] || fallbackModels.default\<close>.\<close>

definition modelUrlFor :: "string \<Rightarrow> string" where
  "modelUrlFor modelType =
     (case map_of fallbackModels modelType of
        Some u \<Rightarrow> if u \<noteq> [] then u else fallbackModels_default
      | None \<Rightarrow> fallbackModels_default)"

subsection \<open>\<open>generateModelWithAI\<close>\<close>

record model_data =
  modelUrl :: string
  modelDescription :: string
  aiGenerated :: bool
  modelType :: string

text \<open>
  What the text-completion call did: it threw (no reply, a rejected request, a reply
  without text), or it returned a text, given here with the result of \<open>JSON.parse\<close> on
  that text (\<open>None\<close> when parsing throws).
\<close>

datatype ai_outcome = Failed | Replied string "json option"

text \<open>
  The array literal \<open>[...prompt.toLowerCase().split(' '), ...(aiResponse.keywords || []),
  aiResponse.mainCategory].filter(Boolean)\<close>. \<open>None\<close> is a thrown TypeError.
\<close>

definition allKeywords :: "string \<Rightarrow> json \<Rightarrow> json list option" where
  "allKeywords prompt aiResponse = do {
     kw \<leftarrow> getProp aiResponse ''keywords'';
     ks \<leftarrow> (case kw of None \<Rightarrow> Some [] | Some v \<Rightarrow> if truthy v then spread v else Some []);
     mc \<leftarrow> getProp aiResponse ''mainCategory'';
     Some (filter truthy
       (map JStr (split_str CHR '' '' (toLowerCase prompt)) @ ks @
        (case mc of None \<Rightarrow> [] | Some v \<Rightarrow> [v])))
   }"

text \<open>The \<open>reduce\<close> that scores one category's keyword list.\<close>

definition score :: "string list \<Rightarrow> string list \<Rightarrow> nat" where
  "score allKw keywords =
     foldl (\<lambda>acc keyword. acc + (if toLowerCase keyword \<in> set keywords then 1 else 0)) 0 allKw"

definition categoryScores :: "string list \<Rightarrow> (string \<times> nat) list" where
  "categoryScores allKw =
     map (\<lambda>(category, keywords). (category, score allKw keywords)) modelCategories"

text \<open>
  \<open>categoryScores.sort((a, b) => b.score - a.score)[0]\<close>: a stable sort by descending
  score, then the first element.
\<close>

definition bestMatch :: "(string \<times> nat) list \<Rightarrow> string \<times> nat" where
  "bestMatch cs = hd (sort_key (\<lambda>c. - int (snd c)) cs)"

text \<open>The body of the \<open>try\<close> from the combined keyword list to the returned object.\<close>

definition selectModel :: "string \<Rightarrow> string \<Rightarrow> json \<Rightarrow> model_data option" where
  "selectModel prompt description aiResponse = do {
     ks \<leftarrow> allKeywords prompt aiResponse;
     strs \<leftarrow> those (map asString ks);
     let best = bestMatch (categoryScores strs);
     let mt = (if snd best > 0 then fst best else ''default'');
     Some \<lparr>modelUrl = modelUrlFor mt, modelDescription = description,
           aiGenerated = True, modelType = mt\<rparr>
   }"

text \<open>The object the \<open>catch\<close> block returns.\<close>

definition failureData :: model_data where
  "failureData =
     \<lparr>modelUrl = fallbackModels_default,
      modelDescription = ''Failed to generate AI description'',
      aiGenerated = False, modelType = ''default''\<rparr>"

text \<open>
  The inner \<open>try\<close>/\<open>catch\<close> around \<open>JSON.parse\<close>: a reply that does not parse is
  replaced by an object holding the prompt's own words.
\<close>

definition aiResponseOf :: "string \<Rightarrow> json option \<Rightarrow> json" where
  "aiResponseOf prompt parsed =
     (case parsed of
        Some j \<Rightarrow> j
      | None \<Rightarrow> JObj [(''mainCategory'', JStr ''''),
                       (''keywords'', JArr (map JStr (split_str CHR '' '' (toLowerCase prompt))))])"

text \<open>
  \<open>generateModelWithAI(prompt)\<close>, given whether \<open>GEMINI_API_KEY\<close> is set and the outcome
  of the one text-completion call it makes. The second component lists the prompts sent to
  the text-completion service.
\<close>

definition generateModelWithAI :: "bool \<Rightarrow> ai_outcome \<Rightarrow> string \<Rightarrow> model_data \<times> string list" where
  "generateModelWithAI apiKey outcome prompt =
     (if \<not> apiKey then (failureData, [])
      else case outcome of
        Failed \<Rightarrow> (failureData, [prompt])
      | Replied description parsed \<Rightarrow>
          (case selectModel prompt description (aiResponseOf prompt parsed) of
             Some r \<Rightarrow> (r, [prompt])
           | None \<Rightarrow> (failureData, [prompt])))"

subsection \<open>The \<open>POST\<close> handler\<close>

text \<open>
  A request either makes the first statement of the handler throw (\<open>request.json()\<close>
  rejects, or the body is \<open>null\<close>), or it has a body whose \<open>prompt\<close> is absent or is a
  string, as the signature of \<open>generateModelWithAI\<close> expects. The answer is the status and
  the fields of the JSON body; the second component of the result lists what was sent to
  the text-completion service.
\<close>

datatype request = Unreadable | Body "string option"

record response =
  resp_status :: nat
  resp_error :: "string option"
  resp_url :: "string option"
  resp_description :: "string option"
  resp_aiGenerated :: "bool option"
  resp_modelType :: "string option"

definition POST :: "bool \<Rightarrow> ai_outcome \<Rightarrow> request \<Rightarrow> response \<times> string list" where
  "POST apiKey outcome req =
     (let failed = \<lparr>resp_status = 500, resp_error = Some ''Failed to generate model'',
                     resp_url = Some fallbackModels_default, resp_description = None,
                     resp_aiGenerated = None, resp_modelType = None\<rparr>;
          required = \<lparr>resp_status = 400, resp_error = Some ''Prompt is required'',
                       resp_url = None, resp_description = None,
                       resp_aiGenerated = None, resp_modelType = None\<rparr>
      in case req of
        Unreadable \<Rightarrow> (failed, [])
      | Body None \<Rightarrow> (required, [])
      | Body (Some prompt) \<Rightarrow>
          (if prompt = [] then (required, [])
           else
             (let (modelData, calls) = generateModelWithAI apiKey outcome prompt
              in if modelUrl modelData = [] then (failed, calls)
                 else (\<lparr>resp_status = 200, resp_error = None, resp_url = Some (modelUrl modelData),
                        resp_description = Some (modelDescription modelData),
                        resp_aiGenerated = Some (aiGenerated modelData),
                        resp_modelType = Some (modelType modelData)\<rparr>, calls))))"

subsection \<open>The earlier route handler\<close>

text \<open>
  \<open>src/app/api/generate/route.ts\<close> (and, with the same table and the same chain of
  tests, the \<open>/generate\<close> endpoint of \<open>src/imagine-ar/server.js\<close>) picks the model by
  substring tests on the lowercased prompt, first match first.
\<close>

definition fallbackModels_v1 :: "(string \<times> string) list" where
  "fallbackModels_v1 =
    [(''cube'', ''https://raw.githubusercontent.com/KhronosGroup/glTF-Sample-Models/master/2.0/Box/glTF/Box.gltf''),
     (''duck'', ''https://raw.githubusercontent.com/KhronosGroup/glTF-Sample-Models/master/2.0/Duck/glTF/Duck.gltf''),
     (''robot'', ''https://raw.githubusercontent.com/KhronosGroup/glTF-Sample-Models/master/2.0/BrainStem/glTF/BrainStem.gltf''),
     (''lantern'', ''https://raw.githubusercontent.com/KhronosGroup/glTF-Sample-Models/master/2.0/Lantern/glTF/Lantern.gltf'')]"

definition fallbackModels_v1_cube :: string where
  "fallbackModels_v1_cube = (case map_of fallbackModels_v1 ''cube'' of Some u \<Rightarrow> u | None \<Rightarrow> [])"

definition generateModelWithAI_v1 :: "ai_outcome \<Rightarrow> string \<Rightarrow> model_data \<times> string list" where
  "generateModelWithAI_v1 outcome prompt =
     (case outcome of
        Failed \<Rightarrow>
          (\<lparr>modelUrl = fallbackModels_v1_cube,
            modelDescription = ''Failed to generate AI description'',
            aiGenerated = False, modelType = ''fallback''\<rparr>, [prompt])
      | Replied description parsed \<Rightarrow>
          (let keywords = toLowerCase prompt;
               mt = (if includes_str keywords ''cube'' \<or> includes_str keywords ''box''
                        \<or> includes_str keywords ''square'' then ''cube''
                     else if includes_str keywords ''duck'' \<or> includes_str keywords ''bird''
                        \<or> includes_str keywords ''animal'' then ''duck''
                     else if includes_str keywords ''robot'' \<or> includes_str keywords ''machine''
                        \<or> includes_str keywords ''mechanical'' then ''robot''
                     else if includes_str keywords ''lantern'' \<or> includes_str keywords ''light''
                        \<or> includes_str keywords ''lamp'' then ''lantern''
                     else ''generic'')
           in (\<lparr>modelUrl = (case map_of fallbackModels_v1 mt of
                               Some u \<Rightarrow> if u \<noteq> [] then u else fallbackModels_v1_cube
                             | None \<Rightarrow> fallbackModels_v1_cube),
                modelDescription = description, aiGenerated = True, modelType = mt\<rparr>,
               [prompt])))"

definition POST_v1 :: "ai_outcome \<Rightarrow> request \<Rightarrow> response \<times> string list" where
  "POST_v1 outcome req =
     (let required = \<lparr>resp_status = 400, resp_error = Some ''Prompt is required'',
                       resp_url = None, resp_description = None,
                       resp_aiGenerated = None, resp_modelType = None\<rparr>
      in case req of
        Unreadable \<Rightarrow>
          (\<lparr>resp_status = 500, resp_error = Some ''Failed to generate model'',
            resp_url = Some fallbackModels_v1_cube, resp_description = None,
            resp_aiGenerated = None, resp_modelType = None\<rparr>, [])
      | Body None \<Rightarrow> (required, [])
      | Body (Some prompt) \<Rightarrow>
          (if prompt = [] then (required, [])
           else
             (let (modelData, calls) = generateModelWithAI_v1 outcome prompt
              in (\<lparr>resp_status = 200, resp_error = None, resp_url = Some (modelUrl modelData),
                   resp_description = Some (modelDescription modelData),
                   resp_aiGenerated = Some (aiGenerated modelData),
                   resp_modelType = Some (modelType modelData)\<rparr>, calls))))"

section \<open>The AR placement session\<close>

text \<open>
  The component of \<open>src/components/ARScene.tsx\<close> that retries with
  \<open>fallbackModels.default\<close> is embedded as a state machine: the second component in
  that file, with \<open>loadModel\<close> (lines 727-836), \<open>onSelect\<close> (847-866), \<open>render\<close>
  (873-935) and the session listeners (689-719) of its effect. The first component of the
  file (lines 1-524) differs in that its \<open>loadModel\<close> has no check of the URL and no
  \<open>try\<close>, retries with \<open>fallbackModels.cube\<close> (the same URL), and scales every model
  alike; its \<open>onSelect\<close> also pulses the scale of the copy; its \<open>render\<close> is given
  below. The state holds what the closures share: the refs, the React state, the scene,
  and the loads and timers that the page has started and that can still call back. Each
  callback is a function on the state; an event fires a callback when the runtime can
  deliver it.

  Numbers are idealised as reals. Scene objects live in a heap (a list, an address is an
  index), so that two objects are distinct exactly when their addresses are.
\<close>

subsection \<open>Scene objects\<close>

type_synonym vec3 = "real \<times> real \<times> real"

record object3d =
  content :: string
  position :: vec3
  rotation :: vec3
  scale :: vec3
  visible :: bool

text \<open>
  \<open>content\<close> names the geometry and materials under the object by the file they were
  read from. \<open>Vector3.setFromMatrixPosition(m)\<close> reads the translation of a column-major
  4x4 matrix; \<open>Matrix4.fromArray(a)\<close> copies sixteen entries.
\<close>

definition setFromMatrixPosition :: "real list \<Rightarrow> vec3" where
  "setFromMatrixPosition m = (m ! 12, m ! 13, m ! 14)"

definition fromArray :: "real list \<Rightarrow> real list" where
  "fromArray a = map (\<lambda>i. a ! i) [0..<16]"

definition identityMatrix :: "real list" where
  "identityMatrix = [1, 0, 0, 0,  0, 1, 0, 0,  0, 0, 1, 0,  0, 0, 0, 1]"

subsection \<open>The session state\<close>

text \<open>
  One entry per call of \<open>loader.load\<close>: its URL, whether its 30 s timer is still pending,
  when that timer is due, and whether the loader has already reported success or failure.
\<close>

record load =
  load_url :: string
  timer :: bool
  deadline :: int
  settled :: bool

record session =
  isXRSupported :: bool
  throwingUrls :: "(string \<times> string) list"
  objects :: "object3d list"
  scene :: "nat list"
  modelRef :: "nat option"
  reticleVisible :: bool
  reticleMatrix :: "real list"
  modelLoaded :: bool
  modelLoadProgress :: int
  modelLoadError :: "string option"
  placedObjects :: "nat list"
  sessionRef :: bool
  hitTestSource :: bool
  hitTestSourceRequired :: bool
  hitTestRequests :: nat
  loads :: "load list"
  now :: int

text \<open>
  \<open>isXRSupported\<close> is the value the effect closed over. \<open>throwingUrls\<close> is the
  environment: the URLs on which \<open>loader.load\<close> throws at once, with the message of the
  error; no callback changes it. \<open>now\<close> is the clock in milliseconds.

  The state right after the effect has set up the scene: the reticle exists and is hidden,
  nothing is loaded.
\<close>

definition initialSession :: "bool \<Rightarrow> (string \<times> string) list \<Rightarrow> session" where
  "initialSession xr throwing =
     \<lparr>isXRSupported = xr, throwingUrls = throwing, objects = [], scene = [],
      modelRef = None, reticleVisible = False, reticleMatrix = identityMatrix,
      modelLoaded = False, modelLoadProgress = 0, modelLoadError = None,
      placedObjects = [], sessionRef = False, hitTestSource = False,
      hitTestSourceRequired = False, hitTestRequests = 0, loads = [], now = 0\<rparr>"

subsection \<open>\<open>loadModel\<close> and its callbacks\<close>

text \<open>
  The component declares the same \<open>fallbackModels\<close> table as the route, so
  \<open>fallbackModels.default\<close> is \<^const>\<open>fallbackModels_default\<close>.

  The first statements of \<open>loadModel\<close>: the previous model is removed from the scene and
  forgotten, and the load state is reset.
\<close>

definition clearModel :: "session \<Rightarrow> session" where
  "clearModel s =
     s\<lparr>scene := (case modelRef s of None \<Rightarrow> scene s | Some m \<Rightarrow> remove1 m (scene s)),
       modelRef := None, modelLoaded := False, modelLoadProgress := 0,
       modelLoadError := None\<rparr>"

text \<open>
  \<open>setTimeout(..., 30000)\<close> followed by \<open>loader.load(url, ...)\<close>. When \<open>loader.load\<close>
  returns, the load and its timer are pending; when it throws, the \<open>catch\<close> block clears
  the timer and no callback will come.
\<close>

definition newLoad :: "string \<Rightarrow> bool \<Rightarrow> session \<Rightarrow> session" where
  "newLoad u pending s =
     s\<lparr>loads := loads s @
          [\<lparr>load_url = u, timer = pending, deadline = now s + 30000, settled = (\<not> pending)\<rparr>]\<rparr>"

text \<open>
  \<open>loadModel(url)\<close>. It calls itself with the default URL when the URL is invalid, or when
  \<open>loader.load\<close> throws and the URL is not the default.
\<close>

function loadModel :: "string \<Rightarrow> session \<Rightarrow> session" where
  "loadModel u s =
     (let s1 = clearModel s
      in if u = [] \<or> u = ''undefined'' then
           loadModel fallbackModels_default
             (s1\<lparr>modelLoadError := Some ''Invalid model URL. Please try again.''\<rparr>)
         else
           (case map_of (throwingUrls s1) u of
              None \<Rightarrow> newLoad u True s1
            | Some msg \<Rightarrow>
                (let s2 = (newLoad u False s1)
                            \<lparr>modelLoadError := Some (''Error initializing model load: '' @ msg)\<rparr>
                 in if u \<noteq> fallbackModels_default then loadModel fallbackModels_default s2 else s2)))"
  by pat_completeness auto
termination
  by (relation "measure (\<lambda>(u, s). if u = fallbackModels_default then 0 else 1)")
     (auto simp: fallbackModels_default_def fallbackModels_def)

declare loadModel.simps [simp del]

definition getAppropriateScale :: "string \<Rightarrow> real" where
  "getAppropriateScale u =
     (if includes_str u ''Dragon'' then 0.05
      else if includes_str u ''Lantern'' then 0.5
      else if includes_str u ''Duck'' then 0.2
      else if includes_str u ''Truck'' then 0.2
      else if includes_str u ''Soldier'' then 0.1
      else if includes_str u ''Fox'' then 0.05
      else 0.2)"

text \<open>
  The success callback of load \<open>i\<close>. \<open>gltf\<close> is the scene object the loader built and
  \<open>c\<close> the centre of its bounding box, as \<open>Box3.getCenter\<close> computes it after scaling.
\<close>

definition onLoad :: "nat \<Rightarrow> object3d \<Rightarrow> vec3 \<Rightarrow> session \<Rightarrow> session" where
  "onLoad i gltf c s =
     (let u = load_url (loads s ! i);
          k = getAppropriateScale u;
          a = length (objects s);
          (px, py, pz) = position gltf;
          (cx, cy, cz) = c;
          centred = gltf\<lparr>scale := (k, k, k), position := (px - cx, py - 0, pz - cz)\<rparr>;
          shown = (if \<not> isXRSupported s then centred\<lparr>position := (0, 0, -2), visible := True\<rparr>
                   else if sessionRef s then centred\<lparr>visible := False\<rparr>
                   else centred\<lparr>position := (0, 0, -2), visible := True\<rparr>)
      in s\<lparr>loads := (loads s)[i := (loads s ! i)\<lparr>timer := False, settled := True\<rparr>],
           objects := objects s @ [shown],
           scene := scene s @ [a],
           modelRef := Some a,
           modelLoaded := True,
           modelLoadProgress := 100\<rparr>)"

text \<open>
  The progress callback of load \<open>i\<close>. \<open>progressPercent\<close> is the value of
  \<open>Math.round((progress.loaded / progress.total) * 100)\<close> as the engine computes it in
  floating point; it is an input of the model, so no rounding is done here. A progress
  event with \<open>lengthComputable\<close> set and a total of zero, where that value is no
  integer, is outside the model.
\<close>

definition onProgress :: "nat \<Rightarrow> bool \<Rightarrow> int \<Rightarrow> session \<Rightarrow> session" where
  "onProgress i lengthComputable progressPercent s =
     (if lengthComputable then s\<lparr>modelLoadProgress := progressPercent\<rparr> else s)"

definition onError :: "nat \<Rightarrow> string \<Rightarrow> session \<Rightarrow> session" where
  "onError i msg s =
     (let u = load_url (loads s ! i);
          s1 = s\<lparr>loads := (loads s)[i := (loads s ! i)\<lparr>timer := False, settled := True\<rparr>],
                 modelLoadError := Some (''Failed to load 3D model: '' @ msg)\<rparr>
      in if u \<noteq> fallbackModels_default then loadModel fallbackModels_default s1 else s1)"

text \<open>The \<open>setTimeout\<close> callback of load \<open>i\<close>, run when its timer fires.\<close>

definition onTimeout :: "nat \<Rightarrow> session \<Rightarrow> session" where
  "onTimeout i s =
     (let u = load_url (loads s ! i);
          s1 = s\<lparr>loads := (loads s)[i := (loads s ! i)\<lparr>timer := False\<rparr>],
                 modelLoadError := Some ''Model loading timed out. Please try again.''\<rparr>
      in if u \<noteq> fallbackModels_default then loadModel fallbackModels_default s1 else s1)"

subsection \<open>\<open>onSelect\<close>\<close>

text \<open>
  \<open>Object3D.clone()\<close> of the rendering library makes a new object with copies of the
  transform and the visibility of the original; here it is the allocation of a copy.
\<close>

definition onSelect :: "session \<Rightarrow> session" where
  "onSelect s =
     (case modelRef s of
        Some t \<Rightarrow>
          if reticleVisible s then
            (let a = length (objects s);
                 m = (objects s ! t)\<lparr>position := setFromMatrixPosition (reticleMatrix s),
                                      visible := True\<rparr>
             in s\<lparr>objects := objects s @ [m],
                  scene := scene s @ [a],
                  placedObjects := placedObjects s @ [a]\<rparr>)
          else s
      | None \<Rightarrow> s)"

text \<open>
  Changing the pose of one scene object afterwards (\<open>object.position.set(...)\<close> and
  \<open>object.rotation.set(...)\<close>), as a test of independence does.
\<close>

definition setPose :: "nat \<Rightarrow> vec3 \<Rightarrow> vec3 \<Rightarrow> session \<Rightarrow> session" where
  "setPose a p r s =
     s\<lparr>objects := (objects s)[a := (objects s ! a)\<lparr>position := p, rotation := r\<rparr>]\<rparr>"

subsection \<open>\<open>render\<close> and the XR session events\<close>

text \<open>
  What a frame offers: whether the renderer has a reference space and a session, and
  what \<open>frame.getHitTestResults\<close> and \<open>hit.getPose\<close> do. Either call can throw, and
  \<open>getPose\<close> can return \<open>null\<close>.
\<close>

datatype pose_result = PoseThrows | Pose "real list option"

datatype hit_results = ResultsThrow | Results "pose_result list"

record xrframe =
  referenceSpace :: bool
  xrSession :: bool
  hitTestResults :: hit_results

definition render :: "xrframe option \<Rightarrow> session \<Rightarrow> session" where
  "render frame s =
     (case frame of
        Some f \<Rightarrow>
          if referenceSpace f \<and> xrSession f then
            (let s1 = (if hitTestSourceRequired s
                       then s\<lparr>hitTestRequests := hitTestRequests s + 1,
                              hitTestSourceRequired := False\<rparr>
                       else s)
             in if hitTestSource s1 then
                  (case hitTestResults f of
                     ResultsThrow \<Rightarrow> s1
                   | Results [] \<Rightarrow> s1\<lparr>reticleVisible := False\<rparr>
                   | Results (hit # others) \<Rightarrow>
                       (case hit of
                          PoseThrows \<Rightarrow> s1
                        | Pose None \<Rightarrow> s1
                        | Pose (Some m) \<Rightarrow>
                            s1\<lparr>reticleVisible := True, reticleMatrix := fromArray m\<rparr>))
                else s1)
          else s
      | None \<Rightarrow>
          (case modelRef s of
             Some t \<Rightarrow>
               if \<not> isXRSupported s then
                 (let (rx, ry, rz) = rotation (objects s ! t)
                  in s\<lparr>objects := (objects s)[t := (objects s ! t)\<lparr>rotation := (rx, ry + 0.005, rz)\<rparr>]\<rparr>)
               else s
           | None \<Rightarrow> s))"

text \<open>
  The first component of the file has the same \<open>render\<close> without the \<open>try\<close> and without
  the branch for an empty result list: it never hides the reticle. (A throwing hit-test
  call leaves \<open>render\<close> there; the state is as modelled.)
\<close>

definition render_v1 :: "xrframe option \<Rightarrow> session \<Rightarrow> session" where
  "render_v1 frame s =
     (case frame of
        Some f \<Rightarrow>
          if referenceSpace f \<and> xrSession f then
            (let s1 = (if hitTestSourceRequired s
                       then s\<lparr>hitTestRequests := hitTestRequests s + 1,
                              hitTestSourceRequired := False\<rparr>
                       else s)
             in if hitTestSource s1 then
                  (case hitTestResults f of
                     ResultsThrow \<Rightarrow> s1
                   | Results [] \<Rightarrow> s1
                   | Results (hit # others) \<Rightarrow>
                       (case hit of
                          PoseThrows \<Rightarrow> s1
                        | Pose None \<Rightarrow> s1
                        | Pose (Some m) \<Rightarrow>
                            s1\<lparr>reticleVisible := True, reticleMatrix := fromArray m\<rparr>))
                else s1)
          else s
      | None \<Rightarrow>
          (case modelRef s of
             Some t \<Rightarrow>
               if \<not> isXRSupported s then
                 (let (rx, ry, rz) = rotation (objects s ! t)
                  in s\<lparr>objects := (objects s)[t := (objects s ! t)\<lparr>rotation := (rx, ry + 0.005, rz)\<rparr>]\<rparr>)
               else s
           | None \<Rightarrow> s))"

definition onSessionStart :: "session \<Rightarrow> session" where
  "onSessionStart s =
     (let s1 = s\<lparr>sessionRef := True, hitTestSourceRequired := True\<rparr>
      in case modelRef s of
           Some t \<Rightarrow> s1\<lparr>objects := (objects s)[t := (objects s ! t)\<lparr>visible := False\<rparr>]\<rparr>
         | None \<Rightarrow> s1)"

definition onSessionEnd :: "session \<Rightarrow> session" where
  "onSessionEnd s = s\<lparr>sessionRef := False, hitTestSource := False, hitTestSourceRequired := False\<rparr>"

text \<open>The promise of \<open>requestHitTestSource\<close> resolves: the source is stored.\<close>

definition onHitTestSource :: "session \<Rightarrow> session" where
  "onHitTestSource s = s\<lparr>hitTestSource := True, hitTestRequests := hitTestRequests s - 1\<rparr>"

subsection \<open>Events\<close>

text \<open>
  An event is one callback delivered by the runtime. The loader reports on a load at most
  once (success or failure) and may report progress before; a timer fires once, not before
  it is due, unless it was cleared. \<open>run\<close> is \<open>None\<close> for a sequence the runtime cannot
  produce.
\<close>

datatype event =
    LoadModel string
  | Loaded nat object3d vec3
  | Progress nat bool int
  | LoadError nat string
  | TimerFires nat
  | Select
  | Frame "xrframe option"
  | SessionStart
  | SessionEnd
  | HitTestSourceReady
  | Wait int

fun enabled :: "event \<Rightarrow> session \<Rightarrow> bool" where
  "enabled (Loaded i gltf c) s = (i < length (loads s) \<and> \<not> settled (loads s ! i))"
| "enabled (Progress i lc pct) s = (i < length (loads s) \<and> \<not> settled (loads s ! i))"
| "enabled (LoadError i msg) s = (i < length (loads s) \<and> \<not> settled (loads s ! i))"
| "enabled (TimerFires i) s =
     (i < length (loads s) \<and> timer (loads s ! i) \<and> deadline (loads s ! i) \<le> now s)"
| "enabled HitTestSourceReady s = (0 < hitTestRequests s)"
| "enabled (Wait d) s = (0 \<le> d)"
| "enabled e s = True"

fun fire :: "event \<Rightarrow> session \<Rightarrow> session" where
  "fire (LoadModel u) s = loadModel u s"
| "fire (Loaded i gltf c) s = onLoad i gltf c s"
| "fire (Progress i lc pct) s = onProgress i lc pct s"
| "fire (LoadError i msg) s = onError i msg s"
| "fire (TimerFires i) s = onTimeout i s"
| "fire Select s = onSelect s"
| "fire (Frame f) s = render f s"
| "fire SessionStart s = onSessionStart s"
| "fire SessionEnd s = onSessionEnd s"
| "fire HitTestSourceReady s = onHitTestSource s"
| "fire (Wait d) s = s\<lparr>now := now s + d\<rparr>"

fun run :: "event list \<Rightarrow> session \<Rightarrow> session option" where
  "run [] s = Some s"
| "run (e # es) s = (if enabled e s then run es (fire e s) else None)"

text \<open>The template, when there is one, is an object of the heap.\<close>

definition templateAllocated :: "session \<Rightarrow> bool" where
  "templateAllocated s = (case modelRef s of None \<Rightarrow> True | Some t \<Rightarrow> t < length (objects s))"

section \<open>Properties of the prompt resolution\<close>

subsection \<open>Scoring and the stable sort\<close>

lemma score_count: "score allKw kws = length (filter (\<lambda>k. toLowerCase k \<in> set kws) allKw)"
proof -
  have "foldl (\<lambda>acc keyword. acc + (if toLowerCase keyword \<in> set kws then 1 else 0)) a allKw
        = a + length (filter (\<lambda>k. toLowerCase k \<in> set kws) allKw)" for a :: nat
    by (induction allKw arbitrary: a) auto
  then show ?thesis by (simp add: score_def)
qed

lemma hd_filter_index:
  assumes "filter P xs \<noteq> []"
  shows "\<exists>i<length xs. hd (filter P xs) = xs ! i \<and> P (xs ! i) \<and> (\<forall>j<i. \<not> P (xs ! j))"
  using assms
proof (induction xs)
  case Nil
  then show ?case by simp
next
  case (Cons x xs)
  show ?case
  proof (cases "P x")
    case True
    then show ?thesis by (intro exI[of _ 0]) simp
  next
    case False
    with Cons obtain i where i: "i < length xs" "hd (filter P xs) = xs ! i" "P (xs ! i)"
      "\<forall>j<i. \<not> P (xs ! j)" by auto
    show ?thesis
    proof (intro exI[of _ "Suc i"] conjI allI impI)
      fix j assume "j < Suc i"
      then show "\<not> P ((x # xs) ! j)" using False i(4) by (cases j) auto
    qed (use False i in auto)
  qed
qed

lemma hd_sort_key_stable:
  assumes "xs \<noteq> []"
  shows "hd (sort_key f xs) = hd (filter (\<lambda>y. f y = f (hd (sort_key f xs))) xs)"
    and "\<forall>x\<in>set xs. f (hd (sort_key f xs)) \<le> f x"
proof -
  let ?ys = "sort_key f xs"
  from assms have ne: "?ys \<noteq> []" by (metis length_sort length_0_conv)
  then obtain y ys where ys: "?ys = y # ys" by (cases ?ys) auto
  have "filter (\<lambda>z. f z = f y) xs = y # filter (\<lambda>z. f z = f y) ys"
    using sort_key_stable[of f "f y" xs] by (simp add: ys)
  then have "hd (filter (\<lambda>z. f z = f y) xs) = y" by simp
  then show "hd ?ys = hd (filter (\<lambda>z. f z = f (hd ?ys)) xs)" by (simp add: ys)
  have "sorted (map f ?ys)" by (rule sorted_sort_key)
  then have "\<forall>x\<in>set (y # ys). f y \<le> f x" by (auto simp: ys)
  moreover have "set (y # ys) = set xs" using set_sort[of f xs] by (simp only: ys)
  moreover have "hd ?ys = y" by (simp add: ys)
  ultimately show "\<forall>x\<in>set xs. f (hd ?ys) \<le> f x" by metis
qed

lemma bestMatch_first_max:
  assumes "cs \<noteq> []"
  shows "\<exists>i<length cs. bestMatch cs = cs ! i \<and> (\<forall>j<length cs. snd (cs ! j) \<le> snd (cs ! i))
          \<and> (\<forall>j<i. snd (cs ! j) < snd (cs ! i))"
proof -
  let ?f = "\<lambda>c::string \<times> nat. - int (snd c)"
  let ?b = "bestMatch cs"
  have b: "?b = hd (filter (\<lambda>y. ?f y = ?f ?b) cs)" and le: "\<forall>x\<in>set cs. ?f ?b \<le> ?f x"
    unfolding bestMatch_def using hd_sort_key_stable[OF assms, of ?f] by blast+
  have "?b \<in> set cs" unfolding bestMatch_def using assms
    by (metis hd_in_set length_sort length_0_conv set_sort)
  then have "filter (\<lambda>y. ?f y = ?f ?b) cs \<noteq> []" by (auto simp: filter_empty_conv)
  from hd_filter_index[OF this] obtain i where i: "i < length cs"
    "hd (filter (\<lambda>y. ?f y = ?f ?b) cs) = cs ! i" "\<forall>j<i. \<not> ?f (cs ! j) = ?f ?b" by blast
  have bi: "?b = cs ! i" using b i(2) by simp
  have max: "\<forall>j<length cs. snd (cs ! j) \<le> snd (cs ! i)"
    using le bi nth_mem by fastforce
  have "\<forall>j<i. snd (cs ! j) < snd (cs ! i)"
  proof (intro allI impI)
    fix j assume j: "j < i"
    then have "snd (cs ! j) \<noteq> snd (cs ! i)" using i(3) bi by auto
    moreover have "snd (cs ! j) \<le> snd (cs ! i)" using max j i(1) by auto
    ultimately show "snd (cs ! j) < snd (cs ! i)" by simp
  qed
  with bi max i(1) show ?thesis by blast
qed


lemma categoryScores_nth:
  "j < length modelCategories \<Longrightarrow>
     categoryScores strs ! j = (fst (modelCategories ! j), score strs (snd (modelCategories ! j)))"
  by (simp add: categoryScores_def case_prod_beta)

lemma length_categoryScores: "length (categoryScores strs) = length modelCategories"
  by (simp add: categoryScores_def)

lemma modelCategories_nonempty: "modelCategories \<noteq> []"
  by (simp add: modelCategories_def)

lemma distinct_categories: "distinct (map fst modelCategories)"
  by (simp add: modelCategories_def)

lemma default_not_category: "''default'' \<notin> fst ` set modelCategories"
  by (simp add: modelCategories_def)

lemma bestMatch_categoryScores:
  "\<exists>i<length modelCategories.
      bestMatch (categoryScores strs) = (fst (modelCategories ! i), score strs (snd (modelCategories ! i)))
    \<and> (\<forall>j<length modelCategories. score strs (snd (modelCategories ! j)) \<le> score strs (snd (modelCategories ! i)))
    \<and> (\<forall>j<i. score strs (snd (modelCategories ! j)) < score strs (snd (modelCategories ! i)))"
proof -
  have ne: "categoryScores strs \<noteq> []"
    using modelCategories_nonempty by (simp add: categoryScores_def)
  from bestMatch_first_max[OF ne] obtain i where i: "i < length (categoryScores strs)"
    "bestMatch (categoryScores strs) = categoryScores strs ! i"
    "\<forall>j<length (categoryScores strs). snd (categoryScores strs ! j) \<le> snd (categoryScores strs ! i)"
    "\<forall>j<i. snd (categoryScores strs ! j) < snd (categoryScores strs ! i)" by blast
  have il: "i < length modelCategories" using i(1) by (simp add: length_categoryScores)
  show ?thesis
  proof (intro exI[of _ i] conjI allI impI)
    show "i < length modelCategories" by (rule il)
    show "bestMatch (categoryScores strs) = (fst (modelCategories ! i), score strs (snd (modelCategories ! i)))"
      using i(2) il by (simp add: categoryScores_nth)
  next
    fix j assume j: "j < length modelCategories"
    then show "score strs (snd (modelCategories ! j)) \<le> score strs (snd (modelCategories ! i))"
      using i(3) il by (simp add: categoryScores_nth length_categoryScores)
  next
    fix j assume j: "j < i"
    then have "j < length modelCategories" using il by simp
    then show "score strs (snd (modelCategories ! j)) < score strs (snd (modelCategories ! i))"
      using i(4) il j by (simp add: categoryScores_nth)
  qed
qed

lemma selectModel_Some:
  assumes "allKeywords prompt resp = Some ks" and "those (map asString ks) = Some strs"
  shows "selectModel prompt d resp =
           Some \<lparr>modelUrl = modelUrlFor (if snd (bestMatch (categoryScores strs)) > 0
                                          then fst (bestMatch (categoryScores strs)) else ''default''),
                 modelDescription = d, aiGenerated = True,
                 modelType = (if snd (bestMatch (categoryScores strs)) > 0
                              then fst (bestMatch (categoryScores strs)) else ''default'')\<rparr>"
  using assms by (simp add: selectModel_def Let_def)

lemma generate_replied:
  assumes "allKeywords prompt (aiResponseOf prompt parsed) = Some ks"
      and "those (map asString ks) = Some strs"
  shows "generateModelWithAI True (Replied d parsed) prompt =
           (\<lparr>modelUrl = modelUrlFor (if snd (bestMatch (categoryScores strs)) > 0
                                          then fst (bestMatch (categoryScores strs)) else ''default''),
                 modelDescription = d, aiGenerated = True,
                 modelType = (if snd (bestMatch (categoryScores strs)) > 0
                              then fst (bestMatch (categoryScores strs)) else ''default'')\<rparr>, [prompt])"
  using selectModel_Some[OF assms] by (simp add: generateModelWithAI_def)

lemma modelUrlFor_table: "mt \<in> fst ` set fallbackModels \<Longrightarrow> map_of fallbackModels mt = Some (modelUrlFor mt)"
  by (auto simp: fallbackModels_def modelUrlFor_def)

lemma categories_in_table: "fst ` set modelCategories \<subseteq> fst ` set fallbackModels"
  by (simp add: modelCategories_def fallbackModels_def)

lemma those_asString_JStr: "those (map asString (map JStr xs)) = Some xs"
  by (induction xs) auto

lemma allKeywords_unparsed:
  "allKeywords prompt (aiResponseOf prompt None) =
     Some (map JStr (filter (\<lambda>t. t \<noteq> []) (split_str CHR '' '' (toLowerCase prompt))
                   @ filter (\<lambda>t. t \<noteq> []) (split_str CHR '' '' (toLowerCase prompt))))"
  by (simp add: allKeywords_def aiResponseOf_def filter_map comp_def)

lemma default_in_table: "fallbackModels_default \<in> snd ` set fallbackModels"
  by (simp add: fallbackModels_default_def fallbackModels_def)

lemma modelUrlFor_in_table: "modelUrlFor mt \<in> snd ` set fallbackModels"
proof (cases "map_of fallbackModels mt")
  case None
  then show ?thesis using default_in_table by (simp add: modelUrlFor_def)
next
  case (Some u)
  then have "(mt, u) \<in> set fallbackModels" by (rule map_of_SomeD)
  then have "u \<in> snd ` set fallbackModels" by force
  then show ?thesis using Some default_in_table by (simp add: modelUrlFor_def)
qed

lemma selectModel_url:
  "selectModel prompt d resp = Some r \<Longrightarrow> modelUrl r \<in> snd ` set fallbackModels \<and> modelUrl r \<noteq> []"
proof -
  assume a: "selectModel prompt d resp = Some r"
  then obtain mt where "modelUrl r = modelUrlFor mt"
    by (auto simp: selectModel_def Let_def split: bind_splits)
  moreover have "[] \<notin> snd ` set fallbackModels" by (simp add: fallbackModels_def)
  ultimately show ?thesis using modelUrlFor_in_table by metis
qed

lemma generate_url_in_table:
  "modelUrl (fst (generateModelWithAI apiKey outcome prompt)) \<in> snd ` set fallbackModels"
  using default_in_table selectModel_url
  by (auto simp: generateModelWithAI_def failureData_def split: ai_outcome.splits option.splits)

lemma generate_url_nonempty:
  "modelUrl (fst (generateModelWithAI apiKey outcome prompt)) \<noteq> []"
proof -
  have "[] \<notin> snd ` set fallbackModels" by (simp add: fallbackModels_def)
  then show ?thesis using generate_url_in_table by metis
qed

lemma generate_v1_url_in_table:
  "modelUrl (fst (generateModelWithAI_v1 outcome prompt)) \<in> snd ` set fallbackModels_v1"
  by (cases outcome)
     (simp_all add: generateModelWithAI_v1_def Let_def fallbackModels_v1_def fallbackModels_v1_cube_def)

text \<open>
  When the reply is not JSON, the combined keyword list is the list of the prompt's
  non-empty pieces, twice; so for every prompt the scoring goes through.
\<close>

lemma resolve_unparsed_reply:
  "\<exists>r. generateModelWithAI True (Replied d None) prompt = (r, [prompt])
     \<and> aiGenerated r \<and> modelDescription r = d
     \<and> map_of fallbackModels (modelType r) = Some (modelUrl r)"
proof -
  let ?toks = "filter (\<lambda>t. t \<noteq> []) (split_str CHR '' '' (toLowerCase prompt))"
  let ?b = "bestMatch (categoryScores (?toks @ ?toks))"
  let ?mt = "if snd ?b > 0 then fst ?b else ''default''"
  have g: "generateModelWithAI True (Replied d None) prompt =
           (\<lparr>modelUrl = modelUrlFor ?mt, modelDescription = d, aiGenerated = True,
             modelType = ?mt\<rparr>, [prompt])"
    by (rule generate_replied[OF allKeywords_unparsed those_asString_JStr])
  from bestMatch_categoryScores[of "?toks @ ?toks"] obtain i where
    "i < length modelCategories" "fst ?b = fst (modelCategories ! i)" by auto
  then have "fst ?b \<in> fst ` set modelCategories" by simp
  then have "?mt \<in> fst ` set fallbackModels"
    using categories_in_table by (auto simp: fallbackModels_def)
  then have "map_of fallbackModels ?mt = Some (modelUrlFor ?mt)" by (rule modelUrlFor_table)
  then show ?thesis unfolding g by simp
qed

subsection \<open>What is counted\<close>

text \<open>
  Claim C1, as the code of the route with the category table has it. Whenever the
  text-completion call returns and the combined keyword list holds only strings, the
  result names a category of the table and that category's asset URL, where the category
  has the highest count and a count is the number of entries of the combined list (the
  pieces of the lowercased prompt between single spaces, then the keywords and the main
  category of the reply) whose lowercase form is one of the category's trigger keywords;
  with no positive count the result is \<open>default\<close>. A keyword inside a longer word is not
  counted.
\<close>

theorem resolve_counts_whole_keywords:
  assumes "allKeywords prompt (aiResponseOf prompt parsed) = Some ks"
      and "those (map asString ks) = Some strs"
  shows "\<exists>r. generateModelWithAI True (Replied d parsed) prompt = (r, [prompt]) \<and>
           map_of fallbackModels (modelType r) = Some (modelUrl r) \<and>
           ((modelType r = ''default'' \<and>
               (\<forall>(c, kws)\<in>set modelCategories. length (filter (\<lambda>k. toLowerCase k \<in> set kws) strs) = 0)) \<or>
            (\<exists>kws. (modelType r, kws) \<in> set modelCategories \<and>
                   0 < length (filter (\<lambda>k. toLowerCase k \<in> set kws) strs) \<and>
                   (\<forall>(c, kws')\<in>set modelCategories.
                       length (filter (\<lambda>k. toLowerCase k \<in> set kws') strs)
                         \<le> length (filter (\<lambda>k. toLowerCase k \<in> set kws) strs))))"
proof -
  let ?b = "bestMatch (categoryScores strs)"
  let ?mt = "if snd ?b > 0 then fst ?b else ''default''"
  let ?r = "\<lparr>modelUrl = modelUrlFor ?mt, modelDescription = d, aiGenerated = True, modelType = ?mt\<rparr>"
  have gen: "generateModelWithAI True (Replied d parsed) prompt = (?r, [prompt])"
    by (rule generate_replied[OF assms])
  from bestMatch_categoryScores[of strs] obtain i where i: "i < length modelCategories"
    "?b = (fst (modelCategories ! i), score strs (snd (modelCategories ! i)))"
    "\<forall>j<length modelCategories. score strs (snd (modelCategories ! j)) \<le> score strs (snd (modelCategories ! i))"
    by blast
  have mem: "modelCategories ! i \<in> set modelCategories" using i(1) by simp
  have le: "score strs kws' \<le> score strs (snd (modelCategories ! i))" if "(c, kws') \<in> set modelCategories" for c kws'
  proof -
    from that obtain j where "j < length modelCategories" "modelCategories ! j = (c, kws')"
      by (auto simp: in_set_conv_nth)
    then show ?thesis using i(3) by fastforce
  qed
  have tab: "map_of fallbackModels ?mt = Some (modelUrlFor ?mt)"
  proof (rule modelUrlFor_table)
    show "?mt \<in> fst ` set fallbackModels"
    proof (cases "snd ?b > 0")
      case True
      then have "?mt = fst (modelCategories ! i)" using i(2) by simp
      then show ?thesis using mem categories_in_table by auto
    next
      case False
      then show ?thesis by (simp add: fallbackModels_def)
    qed
  qed
  have sel: "(?mt = ''default'' \<and> (\<forall>(c, kws)\<in>set modelCategories. score strs kws = 0)) \<or>
        (\<exists>kws. (?mt, kws) \<in> set modelCategories \<and> 0 < score strs kws \<and>
           (\<forall>(c, kws')\<in>set modelCategories. score strs kws' \<le> score strs kws))"
  proof (cases "snd ?b > 0")
    case True
    then have mt: "?mt = fst (modelCategories ! i)" and pos: "0 < score strs (snd (modelCategories ! i))"
      using i(2) by simp_all
    have "(?mt, snd (modelCategories ! i)) \<in> set modelCategories" using mem mt by simp
    moreover have "\<forall>(c, kws')\<in>set modelCategories. score strs kws' \<le> score strs (snd (modelCategories ! i))"
      using le by auto
    ultimately show ?thesis using pos by blast
  next
    case False
    then have z: "score strs (snd (modelCategories ! i)) = 0" using i(2) by simp
    have "\<forall>(c, kws)\<in>set modelCategories. score strs kws = 0" using le z by fastforce
    with False show ?thesis by simp
  qed
  show ?thesis
    apply (rule exI[of _ ?r])
    using gen tab sel unfolding score_count by simp
qed

text \<open>
  At the prompt \<open>A red dragon breathing fire\<close>, with a reply that is not JSON, the
  hypotheses hold and the dragon category is chosen.
\<close>

theorem resolve_counts_whole_keywords_witness:
  "\<exists>r. generateModelWithAI True (Replied ''a dragon'' None) ''A red dragon breathing fire''
          = (r, [''A red dragon breathing fire'']) \<and>
       map_of fallbackModels (modelType r) = Some (modelUrl r) \<and>
       modelType r = ''dragon''"
proof -
  have h1: "allKeywords ''A red dragon breathing fire'' (aiResponseOf ''A red dragon breathing fire'' None)
     = Some (map JStr [''a'', ''red'', ''dragon'', ''breathing'', ''fire'', ''a'', ''red'', ''dragon'', ''breathing'', ''fire''])"
    by code_simp
  have h2: "those (map asString (map JStr [''a'', ''red'', ''dragon'', ''breathing'', ''fire'', ''a'', ''red'', ''dragon'', ''breathing'', ''fire'']))
     = Some [''a'', ''red'', ''dragon'', ''breathing'', ''fire'', ''a'', ''red'', ''dragon'', ''breathing'', ''fire'']"
    by code_simp
  have mt: "modelType (fst (generateModelWithAI True (Replied ''a dragon'' None) ''A red dragon breathing fire'')) = ''dragon''"
    by code_simp
  from resolve_counts_whole_keywords[OF h1 h2, of "''a dragon''"] mt show ?thesis by auto
qed

text \<open>
  Claim C1 as stated fails: \<open>dragon\<close> is a substring of the prompt \<open>dragonfly\<close>,
  yet no category scores and the default asset is returned, not the dragon asset.
\<close>

theorem substring_is_no_hit_counterexample:
  "modelType (fst (generateModelWithAI True (Replied ''an insect'' None) ''dragonfly'')) = ''default'' \<and>
   modelUrl (fst (generateModelWithAI True (Replied ''an insect'' None) ''dragonfly'')) \<noteq> modelUrlFor ''dragon'' \<and>
   includes_str (toLowerCase ''dragonfly'') ''dragon''"
  by code_simp

subsection \<open>Which category wins\<close>

text \<open>
  Claim C8, as the code has it. Whenever the text-completion call returns and the combined
  keyword list holds only strings, with hits counted by \<^const>\<open>score\<close> over that combined
  list: a category with strictly fewer hits than another is not selected; of two
  categories with equally many hits the one declared later is not selected; if some
  category has a hit, a category of the table is selected; if none has, the result is the
  default category with the default asset URL.
\<close>

theorem resolve_selects_first_maximum:
  assumes "allKeywords prompt (aiResponseOf prompt parsed) = Some ks"
      and "those (map asString ks) = Some strs"
      and "r = fst (generateModelWithAI True (Replied d parsed) prompt)"
  shows "(\<forall>i j. i < length modelCategories \<and> j < length modelCategories \<and>
                score strs (snd (modelCategories ! i)) < score strs (snd (modelCategories ! j))
             \<longrightarrow> modelType r \<noteq> fst (modelCategories ! i))
       \<and> (\<forall>i j. i < j \<and> j < length modelCategories \<and>
                score strs (snd (modelCategories ! i)) = score strs (snd (modelCategories ! j))
             \<longrightarrow> modelType r \<noteq> fst (modelCategories ! j))
       \<and> ((\<exists>i<length modelCategories. 0 < score strs (snd (modelCategories ! i)))
             \<longrightarrow> modelType r \<in> fst ` set modelCategories)
       \<and> ((\<forall>i<length modelCategories. score strs (snd (modelCategories ! i)) = 0)
             \<longrightarrow> modelType r = ''default'' \<and> modelUrl r = fallbackModels_default)
       \<and> map_of fallbackModels (modelType r) = Some (modelUrl r)"
proof -
  let ?b = "bestMatch (categoryScores strs)"
  let ?mt = "if snd ?b > 0 then fst ?b else ''default''"
  let ?sc = "\<lambda>i. score strs (snd (modelCategories ! i))"
  have r: "modelType r = ?mt" "modelUrl r = modelUrlFor ?mt"
    using generate_replied[OF assms(1,2), of d] assms(3) by simp_all
  from bestMatch_categoryScores[of strs] obtain m where m: "m < length modelCategories"
    "?b = (fst (modelCategories ! m), ?sc m)"
    "\<forall>j<length modelCategories. ?sc j \<le> ?sc m"
    "\<forall>j<m. ?sc j < ?sc m"
    by blast
  have mt_cases: "(?sc m = 0 \<and> modelType r = ''default'') \<or> (0 < ?sc m \<and> modelType r = fst (modelCategories ! m))"
    using r(1) m(2) by auto
  have idx: "i = m" if "i < length modelCategories" "modelType r = fst (modelCategories ! i)" for i
  proof -
    have "fst (modelCategories ! i) \<in> fst ` set modelCategories" using that(1) by simp
    then have "modelType r \<noteq> ''default''" using that(2) default_not_category by metis
    then have "fst (modelCategories ! i) = fst (modelCategories ! m)" using mt_cases that(2) by auto
    then have "map fst modelCategories ! i = map fst modelCategories ! m" using that(1) m(1) by simp
    moreover have "i < length (map fst modelCategories)" "m < length (map fst modelCategories)"
      using that(1) m(1) by simp_all
    ultimately show ?thesis using nth_eq_iff_index_eq[OF distinct_categories] by blast
  qed
  have a: "\<forall>i j. i < length modelCategories \<and> j < length modelCategories \<and> ?sc i < ?sc j
             \<longrightarrow> modelType r \<noteq> fst (modelCategories ! i)"
  proof (intro allI impI notI)
    fix i j assume h: "i < length modelCategories \<and> j < length modelCategories \<and> ?sc i < ?sc j"
      and eq: "modelType r = fst (modelCategories ! i)"
    then have "i = m" using idx by blast
    then show False using h m(3) by (metis leD)
  qed
  have b: "\<forall>i j. i < j \<and> j < length modelCategories \<and> ?sc i = ?sc j
             \<longrightarrow> modelType r \<noteq> fst (modelCategories ! j)"
  proof (intro allI impI notI)
    fix i j assume h: "i < j \<and> j < length modelCategories \<and> ?sc i = ?sc j"
      and eq: "modelType r = fst (modelCategories ! j)"
    then have "j = m" using idx by blast
    then show False using h m(4) by auto
  qed
  have c: "(\<exists>i<length modelCategories. 0 < ?sc i) \<longrightarrow> modelType r \<in> fst ` set modelCategories"
  proof
    assume "\<exists>i<length modelCategories. 0 < ?sc i"
    then have "0 < ?sc m" using m(3) by fastforce
    then have "modelType r = fst (modelCategories ! m)" using mt_cases by simp
    then show "modelType r \<in> fst ` set modelCategories" using m(1) by simp
  qed
  have d: "(\<forall>i<length modelCategories. ?sc i = 0) \<longrightarrow> modelType r = ''default'' \<and> modelUrl r = fallbackModels_default"
  proof
    assume "\<forall>i<length modelCategories. ?sc i = 0"
    then have "?sc m = 0" using m(1) by simp
    then have "?mt = ''default''" using m(2) by simp
    then show "modelType r = ''default'' \<and> modelUrl r = fallbackModels_default"
      using r by (simp add: modelUrlFor_def fallbackModels_default_def fallbackModels_def)
  qed
  have e: "map_of fallbackModels (modelType r) = Some (modelUrl r)"
  proof -
    have "modelType r \<in> fst ` set fallbackModels"
    proof (cases "0 < ?sc m")
      case True
      then have "modelType r = fst (modelCategories ! m)" using mt_cases by simp
      then show ?thesis using m(1) categories_in_table by auto
    next
      case False
      then have "modelType r = ''default''" using mt_cases by simp
      then show ?thesis by (simp add: fallbackModels_def)
    qed
    then show ?thesis unfolding r by (rule modelUrlFor_table)
  qed
  from a b c d e show ?thesis by blast
qed

text \<open>
  The tie of the prompt \<open>robot lantern\<close>: \<open>robot\<close> is declared before
  \<open>lantern\<close>, so \<open>lantern\<close> is not selected.
\<close>

theorem resolve_selects_first_maximum_witness:
  "modelType (fst (generateModelWithAI True (Replied ''a robot holding a lantern'' None) ''robot lantern''))
     \<noteq> ''lantern''
   \<and> map_of fallbackModels
        (modelType (fst (generateModelWithAI True (Replied ''a robot holding a lantern'' None) ''robot lantern'')))
     = Some (modelUrl (fst (generateModelWithAI True (Replied ''a robot holding a lantern'' None) ''robot lantern'')))"
proof -
  have h1: "allKeywords ''robot lantern'' (aiResponseOf ''robot lantern'' None)
     = Some (map JStr [''robot'', ''lantern'', ''robot'', ''lantern''])"
    by code_simp
  have h2: "those (map asString (map JStr [''robot'', ''lantern'', ''robot'', ''lantern'']))
     = Some [''robot'', ''lantern'', ''robot'', ''lantern'']"
    by code_simp
  have tie: "(2::nat) < 3 \<and> 3 < length modelCategories \<and>
      score [''robot'', ''lantern'', ''robot'', ''lantern''] (snd (modelCategories ! 2))
        = score [''robot'', ''lantern'', ''robot'', ''lantern''] (snd (modelCategories ! 3))"
    by code_simp
  have l: "fst (modelCategories ! 3) = ''lantern''" by code_simp
  from resolve_selects_first_maximum[OF h1 h2 refl, of "''a robot holding a lantern''"] tie l
  show ?thesis by metis
qed

text \<open>
  Claim C8 as stated fails: the prompt \<open>wyvern\<close> has no keyword hit at all, neither as
  a word nor as a substring, but the reply of the text-completion service names the main
  category \<open>dragon\<close>, and the dragon category is selected instead of the default.
\<close>

theorem reply_keywords_decide_counterexample:
  \<open>modelType (fst (generateModelWithAI True
       (Replied ''{"mainCategory": "dragon", "keywords": []}''
          (Some (JObj [(''mainCategory'', JStr ''dragon''), (''keywords'', JArr [])])))
       ''wyvern'')) = ''dragon''
   \<and> score (split_str CHR '' '' (toLowerCase ''wyvern'')) (concat (map snd modelCategories)) = 0
   \<and> \<not> list_ex (includes_str (toLowerCase ''wyvern'')) (concat (map snd modelCategories))\<close>
  by code_simp

subsection \<open>A failed text-completion call\<close>

text \<open>
  Claim C3, as the code has it. When the text-completion call fails (or no API key is
  configured, in which case no call is made), the result is the fixed placeholder
  description, flagged as not AI-generated, with model type \<open>default\<close> and the default
  asset URL, whatever the prompt says.
\<close>

theorem failed_completion_returns_default:
  "generateModelWithAI apiKey Failed prompt = (failureData, if apiKey then [prompt] else [])
   \<and> generateModelWithAI False outcome prompt = (failureData, [])
   \<and> modelUrl failureData = fallbackModels_default
   \<and> map_of fallbackModels ''default'' = Some fallbackModels_default
   \<and> modelDescription failureData = ''Failed to generate AI description''
   \<and> aiGenerated failureData = False
   \<and> modelType failureData = ''default''"
  by (simp add: generateModelWithAI_def failureData_def fallbackModels_default_def fallbackModels_def)

theorem failed_completion_returns_default_witness:
  "fst (generateModelWithAI True Failed ''A red dragon breathing fire'') = failureData
   \<and> modelUrl failureData = ''https://raw.githubusercontent.com/KhronosGroup/glTF-Sample-Models/master/2.0/Box/glTF/Box.gltf''"
proof -
  have "fallbackModels_default = ''https://raw.githubusercontent.com/KhronosGroup/glTF-Sample-Models/master/2.0/Box/glTF/Box.gltf''"
    by code_simp
  then show ?thesis
    using failed_completion_returns_default[of True "''A red dragon breathing fire''" Failed] by simp
qed

text \<open>
  Claim C3 as stated fails: for the prompt \<open>A red dragon breathing fire\<close> and a failed
  call, the returned URL is the default (box) asset, not the dragon asset of the table.
\<close>

theorem failed_completion_dragon_counterexample:
  "modelUrl (fst (generateModelWithAI True Failed ''A red dragon breathing fire''))
     = ''https://raw.githubusercontent.com/KhronosGroup/glTF-Sample-Models/master/2.0/Box/glTF/Box.gltf''
   \<and> map_of fallbackModels ''dragon''
     = Some ''https://raw.githubusercontent.com/KhronosGroup/glTF-Sample-Models/master/2.0/Dragon/glTF/Dragon.gltf''
   \<and> modelUrl (fst (generateModelWithAI True Failed ''A red dragon breathing fire''))
     \<noteq> ''https://raw.githubusercontent.com/KhronosGroup/glTF-Sample-Models/master/2.0/Dragon/glTF/Dragon.gltf''"
  by code_simp

subsection \<open>The handler\<close>

text \<open>
  Claim C7, as the code has it. Both handlers answer a missing or empty prompt with status
  400 and the error \<open>Prompt is required\<close> before anything is sent to the
  text-completion service. Every other prompt, also one of white space only, is accepted
  and answered with status 200; the earlier handler sends it to the text-completion
  service, and so does the handler with the category table when an API key is configured.
\<close>

theorem empty_prompt_rejected:
  "POST apiKey outcome (Body (Some [])) =
     (\<lparr>resp_status = 400, resp_error = Some ''Prompt is required'', resp_url = None,
       resp_description = None, resp_aiGenerated = None, resp_modelType = None\<rparr>, [])
   \<and> POST apiKey outcome (Body None) =
     (\<lparr>resp_status = 400, resp_error = Some ''Prompt is required'', resp_url = None,
       resp_description = None, resp_aiGenerated = None, resp_modelType = None\<rparr>, [])
   \<and> POST_v1 outcome (Body (Some [])) =
     (\<lparr>resp_status = 400, resp_error = Some ''Prompt is required'', resp_url = None,
       resp_description = None, resp_aiGenerated = None, resp_modelType = None\<rparr>, [])
   \<and> POST_v1 outcome (Body None) =
     (\<lparr>resp_status = 400, resp_error = Some ''Prompt is required'', resp_url = None,
       resp_description = None, resp_aiGenerated = None, resp_modelType = None\<rparr>, [])
   \<and> (p \<noteq> [] \<longrightarrow> resp_status (fst (POST apiKey outcome (Body (Some p)))) = 200
                 \<and> snd (POST True outcome (Body (Some p))) = [p]
                 \<and> resp_status (fst (POST_v1 outcome (Body (Some p)))) = 200
                 \<and> snd (POST_v1 outcome (Body (Some p))) = [p])"
proof -
  have "snd (generateModelWithAI True outcome p) = [p]"
    by (simp add: generateModelWithAI_def split: ai_outcome.splits option.splits)
  then have "p \<noteq> [] \<longrightarrow> snd (POST True outcome (Body (Some p))) = [p]"
    using generate_url_nonempty[of True outcome p] by (simp add: POST_def case_prod_beta)
  moreover have "p \<noteq> [] \<longrightarrow> resp_status (fst (POST apiKey outcome (Body (Some p)))) = 200"
    using generate_url_nonempty[of apiKey outcome p] by (simp add: POST_def case_prod_beta)
  moreover have "snd (generateModelWithAI_v1 outcome p) = [p]"
    by (simp add: generateModelWithAI_v1_def Let_def split: ai_outcome.splits)
  then have "p \<noteq> [] \<longrightarrow> resp_status (fst (POST_v1 outcome (Body (Some p)))) = 200
                 \<and> snd (POST_v1 outcome (Body (Some p))) = [p]"
    by (simp add: POST_v1_def case_prod_beta)
  moreover have "POST apiKey outcome (Body (Some [])) =
     (\<lparr>resp_status = 400, resp_error = Some ''Prompt is required'', resp_url = None,
       resp_description = None, resp_aiGenerated = None, resp_modelType = None\<rparr>, [])"
    "POST apiKey outcome (Body None) =
     (\<lparr>resp_status = 400, resp_error = Some ''Prompt is required'', resp_url = None,
       resp_description = None, resp_aiGenerated = None, resp_modelType = None\<rparr>, [])"
    by (simp_all add: POST_def)
  moreover have "POST_v1 outcome (Body (Some [])) =
     (\<lparr>resp_status = 400, resp_error = Some ''Prompt is required'', resp_url = None,
       resp_description = None, resp_aiGenerated = None, resp_modelType = None\<rparr>, [])"
    "POST_v1 outcome (Body None) =
     (\<lparr>resp_status = 400, resp_error = Some ''Prompt is required'', resp_url = None,
       resp_description = None, resp_aiGenerated = None, resp_modelType = None\<rparr>, [])"
    by (simp_all add: POST_v1_def)
  ultimately show ?thesis by blast
qed

text \<open>
  An empty prompt is answered with 400 and nothing is sent on; the prompt \<open>cube\<close> is
  answered with 200 and sent on.
\<close>

theorem empty_prompt_rejected_witness:
  "resp_status (fst (POST True (Replied ''ok'' None) (Body (Some [])))) = 400
   \<and> snd (POST True (Replied ''ok'' None) (Body (Some []))) = []
   \<and> resp_status (fst (POST True (Replied ''ok'' None) (Body (Some ''cube'')))) = 200
   \<and> snd (POST True (Replied ''ok'' None) (Body (Some ''cube''))) = [''cube'']
   \<and> snd (POST_v1 (Replied ''ok'' None) (Body (Some ''cube''))) = [''cube'']"
  using empty_prompt_rejected[of True "Replied ''ok'' None" "''cube''"] by simp

text \<open>
  Claim C7 as stated fails for a prompt of three spaces: either handler answers 200 and
  the prompt has been sent to the text-completion service.
\<close>

theorem whitespace_prompt_counterexample:
  "resp_status (fst (POST True (Replied ''ok'' None) (Body (Some ''   '')))) = 200
   \<and> snd (POST True (Replied ''ok'' None) (Body (Some ''   ''))) = [''   '']
   \<and> resp_status (fst (POST_v1 (Replied ''ok'' None) (Body (Some ''   '')))) = 200
   \<and> snd (POST_v1 (Replied ''ok'' None) (Body (Some ''   ''))) = [''   '']"
  by code_simp

text \<open>
  Claim C10. For both route handlers: the answer has status 400 exactly when the prompt is
  missing or empty; every other answer has status 200 or 500 and carries a \<open>url\<close>
  that is one of the URLs of the handler's fallback table.
\<close>

theorem post_response_url_from_table:
  "(resp_status (fst (POST apiKey outcome req)) = 400
      \<longleftrightarrow> req = Body None \<or> req = Body (Some []))
   \<and> (resp_status (fst (POST apiKey outcome req)) \<noteq> 400 \<longrightarrow>
        (resp_status (fst (POST apiKey outcome req)) = 200 \<or> resp_status (fst (POST apiKey outcome req)) = 500)
        \<and> (\<exists>u. resp_url (fst (POST apiKey outcome req)) = Some u \<and> u \<in> snd ` set fallbackModels))
   \<and> (resp_status (fst (POST_v1 outcome req)) = 400
      \<longleftrightarrow> req = Body None \<or> req = Body (Some []))
   \<and> (resp_status (fst (POST_v1 outcome req)) \<noteq> 400 \<longrightarrow>
        (resp_status (fst (POST_v1 outcome req)) = 200 \<or> resp_status (fst (POST_v1 outcome req)) = 500)
        \<and> (\<exists>u. resp_url (fst (POST_v1 outcome req)) = Some u \<and> u \<in> snd ` set fallbackModels_v1))"
proof -
  have cube: "fallbackModels_v1_cube \<in> snd ` set fallbackModels_v1"
    by (simp add: fallbackModels_v1_cube_def fallbackModels_v1_def)
  show ?thesis
  proof (cases req)
    case Unreadable
    then show ?thesis using default_in_table cube by (simp add: POST_def POST_v1_def)
  next
    case (Body p)
    show ?thesis
    proof (cases "p = None \<or> p = Some []")
      case True
      then show ?thesis using Body by (auto simp: POST_def POST_v1_def)
    next
      case False
      then obtain q where q: "p = Some q" "q \<noteq> []" by (cases p) auto
      have new: "fst (POST apiKey outcome req) =
          \<lparr>resp_status = 200, resp_error = None,
           resp_url = Some (modelUrl (fst (generateModelWithAI apiKey outcome q))),
           resp_description = Some (modelDescription (fst (generateModelWithAI apiKey outcome q))),
           resp_aiGenerated = Some (aiGenerated (fst (generateModelWithAI apiKey outcome q))),
           resp_modelType = Some (modelType (fst (generateModelWithAI apiKey outcome q)))\<rparr>"
        using Body q generate_url_nonempty[of apiKey outcome q]
        by (simp add: POST_def case_prod_beta)
      have old: "fst (POST_v1 outcome req) =
          \<lparr>resp_status = 200, resp_error = None,
           resp_url = Some (modelUrl (fst (generateModelWithAI_v1 outcome q))),
           resp_description = Some (modelDescription (fst (generateModelWithAI_v1 outcome q))),
           resp_aiGenerated = Some (aiGenerated (fst (generateModelWithAI_v1 outcome q))),
           resp_modelType = Some (modelType (fst (generateModelWithAI_v1 outcome q)))\<rparr>"
        using Body q by (simp add: POST_v1_def case_prod_beta)
      show ?thesis unfolding new old
        using Body q generate_url_in_table[of apiKey outcome q] generate_v1_url_in_table[of outcome q]
        by simp
    qed
  qed
qed

theorem post_response_url_from_table_witness:
  "resp_status (fst (POST True Failed (Body (Some ''a lantern'')))) = 200 \<and>
   (\<exists>u. resp_url (fst (POST True Failed (Body (Some ''a lantern'')))) = Some u \<and> u \<in> snd ` set fallbackModels) \<and>
   resp_status (fst (POST_v1 (Replied ''ok'' None) (Body (Some ''a lantern'')))) = 200 \<and>
   (\<exists>u. resp_url (fst (POST_v1 (Replied ''ok'' None) (Body (Some ''a lantern'')))) = Some u \<and> u \<in> snd ` set fallbackModels_v1) \<and>
   resp_status (fst (POST True Failed Unreadable)) = 500 \<and>
   (\<exists>u. resp_url (fst (POST True Failed Unreadable)) = Some u \<and> u \<in> snd ` set fallbackModels)"
proof -
  have s1: "resp_status (fst (POST True Failed (Body (Some ''a lantern'')))) = 200" by code_simp
  have s2: "resp_status (fst (POST_v1 (Replied ''ok'' None) (Body (Some ''a lantern'')))) = 200" by code_simp
  have s3: "resp_status (fst (POST True Failed Unreadable)) = 500" by code_simp
  show ?thesis
    using post_response_url_from_table[of True Failed "Body (Some ''a lantern'')"]
      post_response_url_from_table[of True "Replied ''ok'' None" "Body (Some ''a lantern'')"]
      post_response_url_from_table[of True Failed Unreadable] s1 s2 s3
    by simp
qed

section \<open>Properties of the AR placement session\<close>

subsection \<open>\<open>loadModel\<close> unfolded\<close>

lemma default_valid: "fallbackModels_default \<noteq> []" "fallbackModels_default \<noteq> ''undefined''"
  by (simp_all add: fallbackModels_default_def fallbackModels_def)

lemma loadModel_default:
  "loadModel fallbackModels_default s =
     (case map_of (throwingUrls s) fallbackModels_default of
        None \<Rightarrow> newLoad fallbackModels_default True (clearModel s)
      | Some msg \<Rightarrow> (newLoad fallbackModels_default False (clearModel s))
                      \<lparr>modelLoadError := Some (''Error initializing model load: '' @ msg)\<rparr>)"
  by (subst loadModel.simps) (simp add: default_valid Let_def clearModel_def split: option.splits)

lemma loadModel_valid:
  assumes "u \<noteq> []" "u \<noteq> ''undefined''"
  shows "loadModel u s =
     (case map_of (throwingUrls s) u of
        None \<Rightarrow> newLoad u True (clearModel s)
      | Some msg \<Rightarrow>
          (if u \<noteq> fallbackModels_default
           then loadModel fallbackModels_default
                  ((newLoad u False (clearModel s))
                      \<lparr>modelLoadError := Some (''Error initializing model load: '' @ msg)\<rparr>)
           else (newLoad u False (clearModel s))
                      \<lparr>modelLoadError := Some (''Error initializing model load: '' @ msg)\<rparr>))"
  using assms by (subst loadModel.simps) (simp add: Let_def clearModel_def split: option.splits)

lemma loadModel_invalid:
  assumes "u = [] \<or> u = ''undefined''"
  shows "loadModel u s =
     loadModel fallbackModels_default
       ((clearModel s)\<lparr>modelLoadError := Some ''Invalid model URL. Please try again.''\<rparr>)"
  using assms by (subst loadModel.simps) (simp add: Let_def)

text \<open>What a call of \<open>loadModel\<close> leaves untouched, and what it resets.\<close>

lemma loadModel_default_fields:
  "modelRef (loadModel fallbackModels_default s) = None"
  "modelLoaded (loadModel fallbackModels_default s) = False"
  "modelLoadProgress (loadModel fallbackModels_default s) = 0"
  "objects (loadModel fallbackModels_default s) = objects s"
  "placedObjects (loadModel fallbackModels_default s) = placedObjects s"
  "now (loadModel fallbackModels_default s) = now s"
  "throwingUrls (loadModel fallbackModels_default s) = throwingUrls s"
  "\<exists>l. loads (loadModel fallbackModels_default s) = loads s @ [l] \<and> load_url l = fallbackModels_default
        \<and> deadline l = now s + 30000
        \<and> (map_of (throwingUrls s) fallbackModels_default = None \<longrightarrow> timer l \<and> \<not> settled l)"
  by (simp_all add: loadModel_default newLoad_def clearModel_def split: option.splits)

lemma loadModel_fields:
  "modelRef (loadModel u s) = None"
  "modelLoaded (loadModel u s) = False"
  "modelLoadProgress (loadModel u s) = 0"
  "objects (loadModel u s) = objects s"
  "placedObjects (loadModel u s) = placedObjects s"
  "now (loadModel u s) = now s"
  "throwingUrls (loadModel u s) = throwingUrls s"
proof -
  consider "u = [] \<or> u = ''undefined''" | "u \<noteq> []" "u \<noteq> ''undefined''" by blast
  then have "modelRef (loadModel u s) = None \<and> modelLoaded (loadModel u s) = False
     \<and> modelLoadProgress (loadModel u s) = 0 \<and> objects (loadModel u s) = objects s
     \<and> placedObjects (loadModel u s) = placedObjects s \<and> now (loadModel u s) = now s
     \<and> throwingUrls (loadModel u s) = throwingUrls s"
  proof cases
    case 1
    then show ?thesis
      by (simp add: loadModel_invalid loadModel_default_fields clearModel_def)
  next
    case 2
    then show ?thesis
      by (simp add: loadModel_valid loadModel_default_fields clearModel_def newLoad_def
               split: option.splits)
  qed
  then show "modelRef (loadModel u s) = None"
    "modelLoaded (loadModel u s) = False"
    "modelLoadProgress (loadModel u s) = 0"
    "objects (loadModel u s) = objects s"
    "placedObjects (loadModel u s) = placedObjects s"
    "now (loadModel u s) = now s"
    "throwingUrls (loadModel u s) = throwingUrls s" by simp_all
qed

lemma loadModel_keeps_loads:
  "take (length (loads s)) (loads (loadModel u s)) = loads s"
  "length (loads s) < length (loads (loadModel u s))"
proof -
  have d: "take (length (loads s)) (loads (loadModel fallbackModels_default s)) = loads s
       \<and> length (loads s) < length (loads (loadModel fallbackModels_default s))" for s
    by (simp add: loadModel_default newLoad_def clearModel_def split: option.splits)
  consider "u = [] \<or> u = ''undefined''" | "u \<noteq> []" "u \<noteq> ''undefined''" by blast
  then have "take (length (loads s)) (loads (loadModel u s)) = loads s
     \<and> length (loads s) < length (loads (loadModel u s))"
  proof cases
    case 1
    then show ?thesis
      using d[of "(clearModel s)\<lparr>modelLoadError := Some ''Invalid model URL. Please try again.''\<rparr>"]
      by (simp add: loadModel_invalid clearModel_def)
  next
    case 2
    show ?thesis
    proof (cases "map_of (throwingUrls s) u")
      case None
      then show ?thesis using 2 by (simp add: loadModel_valid newLoad_def clearModel_def)
    next
      case (Some msg)
      show ?thesis
      proof (cases "u = fallbackModels_default")
        case True
        then show ?thesis using d[of s] by simp
      next
        case False
        define s2 where "s2 = (newLoad u False (clearModel s))\<lparr>modelLoadError := Some (''Error initializing model load: '' @ msg)\<rparr>"
        have l2: "loads s2 = loads s @ [\<lparr>load_url = u, timer = False, deadline = now s + 30000, settled = True\<rparr>]"
          by (simp add: s2_def newLoad_def clearModel_def)
        have eq: "loadModel u s = loadModel fallbackModels_default s2"
          using 2 Some False by (simp add: loadModel_valid s2_def)
        from d[of s2] have t: "take (length (loads s2)) (loads (loadModel fallbackModels_default s2)) = loads s2"
          and lt: "length (loads s2) < length (loads (loadModel fallbackModels_default s2))" by blast+
        have len: "length (loads s2) = Suc (length (loads s))" by (simp add: l2)
        have "take (length (loads s)) (loads (loadModel fallbackModels_default s2))
            = take (length (loads s)) (take (length (loads s2)) (loads (loadModel fallbackModels_default s2)))"
          by (simp add: len min_def)
        also have "\<dots> = take (length (loads s)) (loads s2)" by (simp only: t)
        also have "\<dots> = loads s" by (simp add: l2)
        finally have "take (length (loads s)) (loads (loadModel fallbackModels_default s2)) = loads s" .
        moreover have "length (loads s) < length (loads (loadModel fallbackModels_default s2))"
          using lt len by simp
        ultimately show ?thesis by (simp only: eq)
      qed
    qed
  qed
  then show "take (length (loads s)) (loads (loadModel u s)) = loads s"
    "length (loads s) < length (loads (loadModel u s))" by simp_all
qed

subsection \<open>The failure and timeout callbacks\<close>

lemma onError_retry:
  assumes "load_url (loads s ! i) \<noteq> fallbackModels_default"
  shows "onError i msg s =
     loadModel fallbackModels_default
       (s\<lparr>loads := (loads s)[i := (loads s ! i)\<lparr>timer := False, settled := True\<rparr>],
          modelLoadError := Some (''Failed to load 3D model: '' @ msg)\<rparr>)"
  using assms by (simp add: onError_def Let_def)

lemma onError_terminal:
  assumes "load_url (loads s ! i) = fallbackModels_default"
  shows "onError i msg s =
       s\<lparr>loads := (loads s)[i := (loads s ! i)\<lparr>timer := False, settled := True\<rparr>],
          modelLoadError := Some (''Failed to load 3D model: '' @ msg)\<rparr>"
  using assms by (simp add: onError_def Let_def)

lemma onTimeout_retry:
  assumes "load_url (loads s ! i) \<noteq> fallbackModels_default"
  shows "onTimeout i s =
     loadModel fallbackModels_default
       (s\<lparr>loads := (loads s)[i := (loads s ! i)\<lparr>timer := False\<rparr>],
          modelLoadError := Some ''Model loading timed out. Please try again.''\<rparr>)"
  using assms by (simp add: onTimeout_def Let_def)

lemma onTimeout_terminal:
  assumes "load_url (loads s ! i) = fallbackModels_default"
  shows "onTimeout i s =
       s\<lparr>loads := (loads s)[i := (loads s ! i)\<lparr>timer := False\<rparr>],
          modelLoadError := Some ''Model loading timed out. Please try again.''\<rparr>"
  using assms by (simp add: onTimeout_def Let_def)

lemma loadModel_plain:
  assumes "u \<noteq> []" "u \<noteq> ''undefined''" "map_of (throwingUrls s) u = None"
  shows "loadModel u s = newLoad u True (clearModel s)"
  using assms by (simp add: loadModel_valid)

lemma retry_then_default_fails:
  assumes u: "u \<noteq> []" "u \<noteq> ''undefined''" "u \<noteq> fallbackModels_default"
      and nothrow: "map_of (throwingUrls s) u = None" "map_of (throwingUrls s) fallbackModels_default = None"
      and n: "n = length (loads s)"
  shows "\<exists>s'. run [LoadModel u, LoadError n m1, LoadError (Suc n) m2] s = Some s'
            \<and> modelRef s' = None
            \<and> modelLoadError s' = Some (''Failed to load 3D model: '' @ m2)
            \<and> map load_url (drop n (loads s')) = [u, fallbackModels_default]
            \<and> map settled (drop n (loads s')) = [True, True]"
    and "\<exists>s'. run [LoadModel u, Wait 30000, TimerFires n, LoadError (Suc n) m2] s = Some s'
            \<and> modelRef s' = None
            \<and> modelLoadError s' = Some (''Failed to load 3D model: '' @ m2)
            \<and> map load_url (drop n (loads s')) = [u, fallbackModels_default]
            \<and> map settled (drop n (loads s')) = [False, True]"
proof -
  define s1 where "s1 = loadModel u s"
  have s1: "s1 = newLoad u True (clearModel s)"
    unfolding s1_def using u nothrow by (simp add: loadModel_plain)
  have l1: "loads s1 = loads s @ [\<lparr>load_url = u, timer = True, deadline = now s + 30000, settled = False\<rparr>]"
    by (simp add: s1 newLoad_def clearModel_def)
  have t1: "throwingUrls s1 = throwingUrls s" "now s1 = now s"
    by (simp_all add: s1 newLoad_def clearModel_def)
  have en1: "enabled (LoadError n m1) s1" by (simp add: l1 n)
  \<comment> \<open>the load fails\<close>
  define s2 where "s2 = onError n m1 s1"
  define s1' where "s1' = s1\<lparr>loads := (loads s1)[n := (loads s1 ! n)\<lparr>timer := False, settled := True\<rparr>],
          modelLoadError := Some (''Failed to load 3D model: '' @ m1)\<rparr>"
  have "load_url (loads s1 ! n) \<noteq> fallbackModels_default" using u by (simp add: l1 n)
  then have "s2 = loadModel fallbackModels_default s1'"
    unfolding s2_def s1'_def by (rule onError_retry)
  then have s2: "s2 = newLoad fallbackModels_default True (clearModel s1')"
    using nothrow t1 by (simp add: loadModel_default s1'_def)
  have l2: "loads s2 = loads s @ [\<lparr>load_url = u, timer = False, deadline = now s + 30000, settled = True\<rparr>,
       \<lparr>load_url = fallbackModels_default, timer = True, deadline = now s + 30000, settled = False\<rparr>]"
    by (simp add: s2 s1'_def newLoad_def clearModel_def l1 n t1)
  have m2: "modelRef s2 = None" by (simp add: s2 newLoad_def clearModel_def)
  have en2: "enabled (LoadError (Suc n) m2) s2" by (simp add: l2 n nth_append)
  have "load_url (loads s2 ! Suc n) = fallbackModels_default" by (simp add: l2 n nth_append)
  then have s3: "onError (Suc n) m2 s2 = s2\<lparr>loads := (loads s2)[Suc n := (loads s2 ! Suc n)\<lparr>timer := False, settled := True\<rparr>],
          modelLoadError := Some (''Failed to load 3D model: '' @ m2)\<rparr>"
    by (rule onError_terminal)
  have r: "run [LoadModel u, LoadError n m1, LoadError (Suc n) m2] s = Some (onError (Suc n) m2 s2)"
    using en1 en2 by (simp add: s1_def[symmetric] s2_def[symmetric])
  show "\<exists>s'. run [LoadModel u, LoadError n m1, LoadError (Suc n) m2] s = Some s'
            \<and> modelRef s' = None
            \<and> modelLoadError s' = Some (''Failed to load 3D model: '' @ m2)
            \<and> map load_url (drop n (loads s')) = [u, fallbackModels_default]
            \<and> map settled (drop n (loads s')) = [True, True]"
    unfolding r s3 using m2 by (simp add: l2 n list_update_append nth_append)
  \<comment> \<open>the load times out\<close>
  define w where "w = s1\<lparr>now := now s1 + 30000\<rparr>"
  have lw: "loads w = loads s1" and tw: "throwingUrls w = throwingUrls s" "now w = now s + 30000"
    by (simp_all add: w_def t1)
  have enw: "enabled (TimerFires n) w" by (simp add: lw l1 n tw)
  define w' where "w' = w\<lparr>loads := (loads w)[n := (loads w ! n)\<lparr>timer := False\<rparr>],
          modelLoadError := Some ''Model loading timed out. Please try again.''\<rparr>"
  define w2 where "w2 = onTimeout n w"
  have "load_url (loads w ! n) \<noteq> fallbackModels_default" using u by (simp add: lw l1 n)
  then have "w2 = loadModel fallbackModels_default w'"
    unfolding w2_def w'_def by (rule onTimeout_retry)
  then have w2: "w2 = newLoad fallbackModels_default True (clearModel w')"
    using nothrow tw by (simp add: loadModel_default w'_def)
  have lw2: "loads w2 = loads s @ [\<lparr>load_url = u, timer = False, deadline = now s + 30000, settled = False\<rparr>,
       \<lparr>load_url = fallbackModels_default, timer = True, deadline = now s + 30000 + 30000, settled = False\<rparr>]"
    by (simp add: w2 w'_def newLoad_def clearModel_def lw l1 n tw)
  have mw2: "modelRef w2 = None" by (simp add: w2 newLoad_def clearModel_def)
  have enw2: "enabled (LoadError (Suc n) m2) w2" by (simp add: lw2 n nth_append)
  have "load_url (loads w2 ! Suc n) = fallbackModels_default" by (simp add: lw2 n nth_append)
  then have w3: "onError (Suc n) m2 w2 = w2\<lparr>loads := (loads w2)[Suc n := (loads w2 ! Suc n)\<lparr>timer := False, settled := True\<rparr>],
          modelLoadError := Some (''Failed to load 3D model: '' @ m2)\<rparr>"
    by (rule onError_terminal)
  have rw: "run [LoadModel u, Wait 30000, TimerFires n, LoadError (Suc n) m2] s = Some (onError (Suc n) m2 w2)"
    using enw enw2 by (simp add: s1_def[symmetric] w_def[symmetric] w2_def[symmetric])
  show "\<exists>s'. run [LoadModel u, Wait 30000, TimerFires n, LoadError (Suc n) m2] s = Some s'
            \<and> modelRef s' = None
            \<and> modelLoadError s' = Some (''Failed to load 3D model: '' @ m2)
            \<and> map load_url (drop n (loads s')) = [u, fallbackModels_default]
            \<and> map settled (drop n (loads s')) = [False, True]"
    unfolding rw w3 using mw2 by (simp add: lw2 n list_update_append nth_append)
qed

subsection \<open>Reachable states keep the template allocated\<close>

lemma fromArray_sixteen: "length m = 16 \<Longrightarrow> fromArray m = m"
  using map_nth[of m] by (simp add: fromArray_def)

lemma templateAllocated_iff:
  "templateAllocated s \<longleftrightarrow> (\<forall>t. modelRef s = Some t \<longrightarrow> t < length (objects s))"
  by (simp add: templateAllocated_def split: option.splits)

lemma fire_templateAllocated:
  assumes "templateAllocated s"
  shows "templateAllocated (fire e s)"
proof (cases e)
  case (LoadModel u)
  then show ?thesis by (simp add: templateAllocated_iff loadModel_fields)
next
  case (Loaded i gltf c)
  then show ?thesis by (simp add: templateAllocated_iff onLoad_def Let_def case_prod_beta)
next
  case (Progress i lc pct)
  then show ?thesis using assms by (auto simp: templateAllocated_iff onProgress_def split: option.splits)
next
  case (LoadError i msg)
  show ?thesis
  proof (cases "load_url (loads s ! i) = fallbackModels_default")
    case True
    then show ?thesis using assms LoadError by (simp add: templateAllocated_iff onError_terminal)
  next
    case False
    then show ?thesis using LoadError by (simp add: templateAllocated_iff onError_retry loadModel_fields)
  qed
next
  case (TimerFires i)
  show ?thesis
  proof (cases "load_url (loads s ! i) = fallbackModels_default")
    case True
    then show ?thesis using assms TimerFires by (simp add: templateAllocated_iff onTimeout_terminal)
  next
    case False
    then show ?thesis using TimerFires by (simp add: templateAllocated_iff onTimeout_retry loadModel_fields)
  qed
next
  case Select
  then show ?thesis using assms
    by (auto simp: templateAllocated_iff onSelect_def Let_def split: option.splits)
next
  case (Frame f)
  then show ?thesis using assms
    by (auto simp: templateAllocated_iff render_def Let_def case_prod_beta
             split: option.splits hit_results.splits list.splits pose_result.splits)
next
  case SessionStart
  then show ?thesis using assms
    by (auto simp: templateAllocated_iff onSessionStart_def Let_def split: option.splits)
next
  case SessionEnd
  then show ?thesis using assms by (simp add: templateAllocated_iff onSessionEnd_def)
next
  case HitTestSourceReady
  then show ?thesis using assms by (simp add: templateAllocated_iff onHitTestSource_def)
next
  case (Wait d)
  then show ?thesis using assms by (simp add: templateAllocated_iff)
qed

lemma run_templateAllocated:
  "templateAllocated s \<Longrightarrow> run es s = Some s' \<Longrightarrow> templateAllocated s'"
proof (induction es arbitrary: s)
  case Nil
  then show ?case by simp
next
  case (Cons e es)
  then show ?case using fire_templateAllocated by (auto split: if_splits)
qed

lemma reachable_templateAllocated:
  "run es (initialSession xr thr) = Some s \<Longrightarrow> templateAllocated s"
  by (rule run_templateAllocated[of "initialSession xr thr"]) (simp_all add: templateAllocated_def initialSession_def)

lemma onSelect_places:
  assumes "reticleVisible s" and "modelRef s = Some t"
  shows "onSelect s =
     s\<lparr>objects := objects s @ [(objects s ! t)\<lparr>position := setFromMatrixPosition (reticleMatrix s),
                                                 visible := True\<rparr>],
       scene := scene s @ [length (objects s)],
       placedObjects := placedObjects s @ [length (objects s)]\<rparr>"
  using assms by (simp add: onSelect_def Let_def)

subsection \<open>Loads that overlap\<close>

text \<open>
  Claim C2, as the code has it. The component keeps no generation token and cancels no
  load. Starting a load leaves every earlier load and its timer as they are, removes the
  installed template and resets the load state. Whenever the success callback of a load
  can still run (the loader has not yet reported on that load), it installs its asset as
  the template, marks the model loaded with progress 100, and clears its own timer only.
\<close>

theorem stale_load_still_installs:
  "take (length (loads s)) (loads (loadModel u s)) = loads s
   \<and> length (loads s) < length (loads (loadModel u s))
   \<and> modelRef (loadModel u s) = None
   \<and> modelLoaded (loadModel u s) = False
   \<and> modelLoadProgress (loadModel u s) = 0
   \<and> (enabled (Loaded i gltf c) s \<longleftrightarrow> i < length (loads s) \<and> \<not> settled (loads s ! i))
   \<and> modelRef (onLoad i gltf c s) = Some (length (objects s))
   \<and> content (objects (onLoad i gltf c s) ! length (objects s)) = content gltf
   \<and> modelLoaded (onLoad i gltf c s) = True
   \<and> modelLoadProgress (onLoad i gltf c s) = 100
   \<and> loads (onLoad i gltf c s) = (loads s)[i := (loads s ! i)\<lparr>timer := False, settled := True\<rparr>]"
proof -
  have "content (objects (onLoad i gltf c s) ! length (objects s)) = content gltf"
    by (simp add: onLoad_def Let_def case_prod_beta)
  moreover have "modelRef (onLoad i gltf c s) = Some (length (objects s))"
    "modelLoaded (onLoad i gltf c s) = True"
    "modelLoadProgress (onLoad i gltf c s) = 100"
    "loads (onLoad i gltf c s) = (loads s)[i := (loads s ! i)\<lparr>timer := False, settled := True\<rparr>]"
    by (simp_all add: onLoad_def Let_def case_prod_beta)
  ultimately show ?thesis
    using loadModel_keeps_loads[of s u] loadModel_fields(1,2,3)[of u s] by simp
qed

theorem stale_load_still_installs_witness:
  "enabled (Loaded 0 \<lparr>content = ''https://example.com/slow.gltf'', position = (0, 0, 0),
                      rotation = (0, 0, 0), scale = (1, 1, 1), visible = True\<rparr> (0, 0, 0))
      (loadModel fallbackModels_default (loadModel ''https://example.com/slow.gltf'' (initialSession True [])))
   \<and> modelRef (onLoad 0 \<lparr>content = ''https://example.com/slow.gltf'', position = (0, 0, 0),
                      rotation = (0, 0, 0), scale = (1, 1, 1), visible = True\<rparr> (0, 0, 0)
      (loadModel fallbackModels_default (loadModel ''https://example.com/slow.gltf'' (initialSession True []))))
     = Some 0"
proof -
  let ?s = "loadModel fallbackModels_default (loadModel ''https://example.com/slow.gltf'' (initialSession True []))"
  let ?g = "\<lparr>content = ''https://example.com/slow.gltf'', position = (0, 0, 0),
                      rotation = (0, 0, 0), scale = (1, 1, 1), visible = True\<rparr>"
  have e: "0 < length (loads ?s) \<and> \<not> settled (loads ?s ! 0)" by code_simp
  have o: "length (objects ?s) = 0" by (simp add: loadModel_fields initialSession_def)
  from stale_load_still_installs[of ?s "''u''" 0 ?g "(0, 0, 0)"] e o show ?thesis by simp
qed

text \<open>
  Claim C2 as stated fails. A load times out and the retry with the default asset starts:
  two loads are in flight. The retry succeeds and installs the default asset; then the
  first, superseded load succeeds after all, and its asset replaces the template that the
  newer load installed (both objects stay in the scene).
\<close>

theorem stale_load_replaces_newer_counterexample:
  "map_option (map settled \<circ> loads)
     (run [LoadModel ''https://example.com/slow.gltf'', Wait 30000, TimerFires 0]
        (initialSession True []))
     = Some [False, False]
   \<and> map_option (map content \<circ> objects)
     (run [LoadModel ''https://example.com/slow.gltf'', Wait 30000, TimerFires 0,
           Loaded 1 \<lparr>content = fallbackModels_default, position = (0, 0, 0),
                     rotation = (0, 0, 0), scale = (1, 1, 1), visible = True\<rparr> (0, 0, 0),
           Loaded 0 \<lparr>content = ''https://example.com/slow.gltf'', position = (0, 0, 0),
                     rotation = (0, 0, 0), scale = (1, 1, 1), visible = True\<rparr> (0, 0, 0)]
        (initialSession True []))
     = Some [fallbackModels_default, ''https://example.com/slow.gltf'']
   \<and> map_option modelRef
     (run [LoadModel ''https://example.com/slow.gltf'', Wait 30000, TimerFires 0,
           Loaded 1 \<lparr>content = fallbackModels_default, position = (0, 0, 0),
                     rotation = (0, 0, 0), scale = (1, 1, 1), visible = True\<rparr> (0, 0, 0)]
        (initialSession True []))
     = Some (Some 0)
   \<and> map_option modelRef
     (run [LoadModel ''https://example.com/slow.gltf'', Wait 30000, TimerFires 0,
           Loaded 1 \<lparr>content = fallbackModels_default, position = (0, 0, 0),
                     rotation = (0, 0, 0), scale = (1, 1, 1), visible = True\<rparr> (0, 0, 0),
           Loaded 0 \<lparr>content = ''https://example.com/slow.gltf'', position = (0, 0, 0),
                     rotation = (0, 0, 0), scale = (1, 1, 1), visible = True\<rparr> (0, 0, 0)]
        (initialSession True []))
     = Some (Some 1)"
  by code_simp

subsection \<open>Retrying with the default asset\<close>

text \<open>
  Claim C4, as the code has it. When the failure callback of a load runs or its timer
  fires, and the load's URL is not the default asset URL, exactly one new load is started,
  for the default asset URL, and no template is installed; when the URL is the default
  asset URL, no load is started, the load error is set and the rest of the state is left
  as it was. A timer fires only when it is still pending and due, and a load that starts
  has its timer due 30000 ms later. So \<open>loadModel(url)\<close>, then the failure or the
  timeout of that load, then the failure of the default load, with no other callback in
  between, ends with a load error and no template.
\<close>

theorem failed_load_retries_default_once:
  "(load_url (loads s ! i) \<noteq> fallbackModels_default \<longrightarrow>
      (\<exists>l. loads (onError i msg s)
             = (loads s)[i := (loads s ! i)\<lparr>timer := False, settled := True\<rparr>] @ [l]
           \<and> load_url l = fallbackModels_default \<and> deadline l = now s + 30000)
    \<and> (\<exists>l. loads (onTimeout i s)
             = (loads s)[i := (loads s ! i)\<lparr>timer := False\<rparr>] @ [l]
           \<and> load_url l = fallbackModels_default \<and> deadline l = now s + 30000)
    \<and> modelRef (onError i msg s) = None \<and> modelRef (onTimeout i s) = None)
   \<and> (load_url (loads s ! i) = fallbackModels_default \<longrightarrow>
      onError i msg s =
        s\<lparr>loads := (loads s)[i := (loads s ! i)\<lparr>timer := False, settled := True\<rparr>],
          modelLoadError := Some (''Failed to load 3D model: '' @ msg)\<rparr>
    \<and> onTimeout i s =
        s\<lparr>loads := (loads s)[i := (loads s ! i)\<lparr>timer := False\<rparr>],
          modelLoadError := Some ''Model loading timed out. Please try again.''\<rparr>)
   \<and> (enabled (TimerFires i) s \<longleftrightarrow>
        i < length (loads s) \<and> timer (loads s ! i) \<and> deadline (loads s ! i) \<le> now s)
   \<and> (u \<noteq> [] \<and> u \<noteq> ''undefined'' \<and> map_of (throwingUrls s) u = None \<longrightarrow>
        loads (loadModel u s)
          = loads s @ [\<lparr>load_url = u, timer = True, deadline = now s + 30000, settled = False\<rparr>])
   \<and> (u \<noteq> [] \<and> u \<noteq> ''undefined'' \<and> u \<noteq> fallbackModels_default
        \<and> map_of (throwingUrls s) u = None \<and> map_of (throwingUrls s) fallbackModels_default = None \<longrightarrow>
        (\<exists>s'. run [LoadModel u, LoadError (length (loads s)) m1, LoadError (Suc (length (loads s))) m2] s = Some s'
            \<and> modelRef s' = None
            \<and> modelLoadError s' = Some (''Failed to load 3D model: '' @ m2)
            \<and> map load_url (drop (length (loads s)) (loads s')) = [u, fallbackModels_default]
            \<and> map settled (drop (length (loads s)) (loads s')) = [True, True])
      \<and> (\<exists>s'. run [LoadModel u, Wait 30000, TimerFires (length (loads s)), LoadError (Suc (length (loads s))) m2] s = Some s'
            \<and> modelRef s' = None
            \<and> modelLoadError s' = Some (''Failed to load 3D model: '' @ m2)
            \<and> map load_url (drop (length (loads s)) (loads s')) = [u, fallbackModels_default]
            \<and> map settled (drop (length (loads s)) (loads s')) = [False, True]))"
proof (intro conjI impI)
  assume a: "load_url (loads s ! i) \<noteq> fallbackModels_default"
  let ?e = "s\<lparr>loads := (loads s)[i := (loads s ! i)\<lparr>timer := False, settled := True\<rparr>],
          modelLoadError := Some (''Failed to load 3D model: '' @ msg)\<rparr>"
  let ?t = "s\<lparr>loads := (loads s)[i := (loads s ! i)\<lparr>timer := False\<rparr>],
          modelLoadError := Some ''Model loading timed out. Please try again.''\<rparr>"
  show "\<exists>l. loads (onError i msg s)
             = (loads s)[i := (loads s ! i)\<lparr>timer := False, settled := True\<rparr>] @ [l]
           \<and> load_url l = fallbackModels_default \<and> deadline l = now s + 30000"
    using loadModel_default_fields(8)[of ?e] by (simp add: onError_retry[OF a]) blast
  show "\<exists>l. loads (onTimeout i s)
             = (loads s)[i := (loads s ! i)\<lparr>timer := False\<rparr>] @ [l]
           \<and> load_url l = fallbackModels_default \<and> deadline l = now s + 30000"
    using loadModel_default_fields(8)[of ?t] by (simp add: onTimeout_retry[OF a]) blast
  show "modelRef (onError i msg s) = None"
    by (simp add: onError_retry[OF a] loadModel_default_fields)
  show "modelRef (onTimeout i s) = None"
    by (simp add: onTimeout_retry[OF a] loadModel_default_fields)
next
  assume "load_url (loads s ! i) = fallbackModels_default"
  then show "onError i msg s =
        s\<lparr>loads := (loads s)[i := (loads s ! i)\<lparr>timer := False, settled := True\<rparr>],
          modelLoadError := Some (''Failed to load 3D model: '' @ msg)\<rparr>"
    by (rule onError_terminal)
next
  assume "load_url (loads s ! i) = fallbackModels_default"
  then show "onTimeout i s =
        s\<lparr>loads := (loads s)[i := (loads s ! i)\<lparr>timer := False\<rparr>],
          modelLoadError := Some ''Model loading timed out. Please try again.''\<rparr>"
    by (rule onTimeout_terminal)
next
  show "enabled (TimerFires i) s \<longleftrightarrow>
        i < length (loads s) \<and> timer (loads s ! i) \<and> deadline (loads s ! i) \<le> now s"
    by simp
next
  assume "u \<noteq> [] \<and> u \<noteq> ''undefined'' \<and> map_of (throwingUrls s) u = None"
  then show "loads (loadModel u s)
          = loads s @ [\<lparr>load_url = u, timer = True, deadline = now s + 30000, settled = False\<rparr>]"
    by (simp add: loadModel_plain newLoad_def clearModel_def)
next
  assume h: "u \<noteq> [] \<and> u \<noteq> ''undefined'' \<and> u \<noteq> fallbackModels_default
        \<and> map_of (throwingUrls s) u = None \<and> map_of (throwingUrls s) fallbackModels_default = None"
  then show "\<exists>s'. run [LoadModel u, LoadError (length (loads s)) m1, LoadError (Suc (length (loads s))) m2] s = Some s'
            \<and> modelRef s' = None
            \<and> modelLoadError s' = Some (''Failed to load 3D model: '' @ m2)
            \<and> map load_url (drop (length (loads s)) (loads s')) = [u, fallbackModels_default]
            \<and> map settled (drop (length (loads s)) (loads s')) = [True, True]"
    using retry_then_default_fails(1)[of u s "length (loads s)" m1 m2] by blast
next
  assume h: "u \<noteq> [] \<and> u \<noteq> ''undefined'' \<and> u \<noteq> fallbackModels_default
        \<and> map_of (throwingUrls s) u = None \<and> map_of (throwingUrls s) fallbackModels_default = None"
  then show "\<exists>s'. run [LoadModel u, Wait 30000, TimerFires (length (loads s)), LoadError (Suc (length (loads s))) m2] s = Some s'
            \<and> modelRef s' = None
            \<and> modelLoadError s' = Some (''Failed to load 3D model: '' @ m2)
            \<and> map load_url (drop (length (loads s)) (loads s')) = [u, fallbackModels_default]
            \<and> map settled (drop (length (loads s)) (loads s')) = [False, True]"
    using retry_then_default_fails(2)[of u s "length (loads s)" m2] by blast
qed

theorem failed_load_retries_default_once_witness:
  "\<exists>s'. run [LoadModel ''https://example.com/missing.gltf'', LoadError 0 ''404'', LoadError 1 ''offline'']
            (initialSession True []) = Some s'
        \<and> modelRef s' = None
        \<and> modelLoadError s' = Some ''Failed to load 3D model: offline''
        \<and> map load_url (loads s') = [''https://example.com/missing.gltf'', fallbackModels_default]
        \<and> map settled (loads s') = [True, True]"
proof -
  have h: "''https://example.com/missing.gltf'' \<noteq> [] \<and> ''https://example.com/missing.gltf'' \<noteq> ''undefined''
     \<and> ''https://example.com/missing.gltf'' \<noteq> fallbackModels_default
     \<and> map_of (throwingUrls (initialSession True [])) ''https://example.com/missing.gltf'' = None
     \<and> map_of (throwingUrls (initialSession True [])) fallbackModels_default = None"
    by (simp add: initialSession_def fallbackModels_default_def fallbackModels_def)
  have l: "length (loads (initialSession True [])) = 0" by (simp add: initialSession_def)
  from failed_load_retries_default_once[of "initialSession True []" 0 "''x''"
      "''https://example.com/missing.gltf''" "''404''" "''offline''"] h
  have "\<exists>s'. run [LoadModel ''https://example.com/missing.gltf'',
                  LoadError (length (loads (initialSession True []))) ''404'',
                  LoadError (Suc (length (loads (initialSession True [])))) ''offline'']
            (initialSession True []) = Some s'
        \<and> modelRef s' = None
        \<and> modelLoadError s' = Some (''Failed to load 3D model: '' @ ''offline'')
        \<and> map load_url (drop (length (loads (initialSession True []))) (loads s'))
            = [''https://example.com/missing.gltf'', fallbackModels_default]
        \<and> map settled (drop (length (loads (initialSession True []))) (loads s')) = [True, True]"
    by blast
  then show ?thesis unfolding l by simp
qed

text \<open>
  Claim C4 as stated fails, because a load that timed out is not cancelled. When its
  failure arrives after the timeout, a second load of the default asset is started: two
  retries for one call. And when it succeeds after the timeout and the default load then
  fails, the load error is reported while a template is installed.
\<close>

theorem late_callbacks_after_timeout_counterexample:
  "map_option (map load_url \<circ> loads)
     (run [LoadModel ''https://example.com/missing.gltf'', Wait 30000, TimerFires 0,
           LoadError 0 ''Failed to fetch'']
        (initialSession True []))
     = Some [''https://example.com/missing.gltf'', fallbackModels_default, fallbackModels_default]
   \<and> map_option modelLoadError
     (run [LoadModel ''https://example.com/slow.gltf'', Wait 30000, TimerFires 0,
           Loaded 0 \<lparr>content = ''https://example.com/slow.gltf'', position = (0, 0, 0),
                     rotation = (0, 0, 0), scale = (1, 1, 1), visible = True\<rparr> (0, 0, 0),
           LoadError 1 ''Failed to fetch'']
        (initialSession True []))
     = Some (Some ''Failed to load 3D model: Failed to fetch'')
   \<and> map_option modelRef
     (run [LoadModel ''https://example.com/slow.gltf'', Wait 30000, TimerFires 0,
           Loaded 0 \<lparr>content = ''https://example.com/slow.gltf'', position = (0, 0, 0),
                     rotation = (0, 0, 0), scale = (1, 1, 1), visible = True\<rparr> (0, 0, 0),
           LoadError 1 ''Failed to fetch'']
        (initialSession True []))
     = Some (Some 0)"
  by code_simp

subsection \<open>The reticle\<close>

text \<open>
  Claim C5, as the code has it. On a frame with a reference space and a session, once the
  hit-test source is there: when the first hit-test result has a pose, both components
  show the reticle and make its matrix the pose's sixteen entries; when the first result
  has no pose, both leave the reticle as it was; and with no hit-test result the
  \<open>render\<close> of the second component hides the reticle.
\<close>

theorem tracked_frame_updates_reticle:
  assumes "referenceSpace f" and "xrSession f" and "hitTestSource s"
  shows "(\<forall>m others. hitTestResults f = Results (Pose (Some m) # others) \<and> length m = 16 \<longrightarrow>
            reticleVisible (render (Some f) s) \<and> reticleMatrix (render (Some f) s) = m
            \<and> reticleVisible (render_v1 (Some f) s) \<and> reticleMatrix (render_v1 (Some f) s) = m)
       \<and> (\<forall>others. hitTestResults f = Results (Pose None # others) \<longrightarrow>
            reticleVisible (render (Some f) s) = reticleVisible s
            \<and> reticleMatrix (render (Some f) s) = reticleMatrix s
            \<and> reticleVisible (render_v1 (Some f) s) = reticleVisible s
            \<and> reticleMatrix (render_v1 (Some f) s) = reticleMatrix s)
       \<and> (hitTestResults f = Results [] \<longrightarrow> \<not> reticleVisible (render (Some f) s))"
  using assms
  by (auto simp: render_def render_v1_def Let_def fromArray_sixteen
           split: hit_results.splits list.splits pose_result.splits option.splits)

text \<open>
  After the session has started and the hit-test source has arrived, a frame whose first
  result has a pose shows the reticle at that pose, in both components, and the next
  frame without a result hides it again in the second component.
\<close>

theorem tracked_frame_updates_reticle_witness:
  "reticleVisible
     (render (Some \<lparr>referenceSpace = True, xrSession = True,
                    hitTestResults = Results [Pose (Some [1, 0, 0, 0,  0, 1, 0, 0,  0, 0, 1, 0,  0.5, 0, -1, 1])]\<rparr>)
        (onHitTestSource (render (Some \<lparr>referenceSpace = True, xrSession = True, hitTestResults = Results []\<rparr>)
           (onSessionStart (initialSession True [])))))
   \<and> reticleMatrix
     (render (Some \<lparr>referenceSpace = True, xrSession = True,
                    hitTestResults = Results [Pose (Some [1, 0, 0, 0,  0, 1, 0, 0,  0, 0, 1, 0,  0.5, 0, -1, 1])]\<rparr>)
        (onHitTestSource (render (Some \<lparr>referenceSpace = True, xrSession = True, hitTestResults = Results []\<rparr>)
           (onSessionStart (initialSession True [])))))
     = [1, 0, 0, 0,  0, 1, 0, 0,  0, 0, 1, 0,  0.5, 0, -1, 1]
   \<and> reticleVisible
     (render_v1 (Some \<lparr>referenceSpace = True, xrSession = True,
                    hitTestResults = Results [Pose (Some [1, 0, 0, 0,  0, 1, 0, 0,  0, 0, 1, 0,  0.5, 0, -1, 1])]\<rparr>)
        (onHitTestSource (render (Some \<lparr>referenceSpace = True, xrSession = True, hitTestResults = Results []\<rparr>)
           (onSessionStart (initialSession True [])))))
   \<and> \<not> reticleVisible
     (render (Some \<lparr>referenceSpace = True, xrSession = True, hitTestResults = Results []\<rparr>)
        (render (Some \<lparr>referenceSpace = True, xrSession = True,
                    hitTestResults = Results [Pose (Some [1, 0, 0, 0,  0, 1, 0, 0,  0, 0, 1, 0,  0.5, 0, -1, 1])]\<rparr>)
           (onHitTestSource (render (Some \<lparr>referenceSpace = True, xrSession = True, hitTestResults = Results []\<rparr>)
              (onSessionStart (initialSession True []))))))"
proof -
  let ?s = "onHitTestSource (render (Some \<lparr>referenceSpace = True, xrSession = True, hitTestResults = Results []\<rparr>)
           (onSessionStart (initialSession True [])))"
  let ?m = "[1, 0, 0, 0,  0, 1, 0, 0,  0, 0, 1, 0,  0.5, 0, -1, 1] :: real list"
  let ?f = "\<lparr>referenceSpace = True, xrSession = True, hitTestResults = Results [Pose (Some ?m)]\<rparr>"
  let ?e = "\<lparr>referenceSpace = True, xrSession = True, hitTestResults = Results []\<rparr>"
  have h: "referenceSpace ?f" "xrSession ?f" by simp_all
  have hs: "hitTestSource ?s" by (simp add: onHitTestSource_def)
  have r: "hitTestResults ?f = Results (Pose (Some ?m) # []) \<and> length ?m = 16" by simp
  from tracked_frame_updates_reticle[OF h hs] r
  have 1: "reticleVisible (render (Some ?f) ?s) \<and> reticleMatrix (render (Some ?f) ?s) = ?m
     \<and> reticleVisible (render_v1 (Some ?f) ?s)" by blast
  have he: "referenceSpace ?e" "xrSession ?e" by simp_all
  have hs': "hitTestSource (render (Some ?f) ?s)" by (simp add: render_def onHitTestSource_def)
  have re: "hitTestResults ?e = Results []" by simp
  from tracked_frame_updates_reticle[OF he hs'] re
  have 2: "\<not> reticleVisible (render (Some ?e) (render (Some ?f) ?s))" by blast
  from 1 2 show ?thesis by blast
qed

text \<open>
  The first component's \<open>render\<close> agrees with the second on frames with a result, and
  leaves the reticle as it is, visible or not, on a frame without one.
\<close>

lemma render_v1_never_hides:
  "reticleVisible s \<Longrightarrow> reticleVisible (render_v1 frame s)"
  by (auto simp: render_v1_def Let_def case_prod_beta
           split: option.splits hit_results.splits list.splits pose_result.splits)

lemma render_v1_same_on_results:
  "hitTestResults f \<noteq> Results [] \<Longrightarrow> render_v1 (Some f) s = render (Some f) s"
  by (auto simp: render_v1_def render_def Let_def
           split: hit_results.splits list.splits pose_result.splits option.splits)

text \<open>
  Claim C5 as stated fails. A frame has a hit-test result, but \<open>getPose\<close> returns
  \<open>null\<close> for it, and the reticle stays hidden. And in the first component a reticle
  that is shown stays shown on a frame without any result.
\<close>

theorem result_without_pose_counterexample:
  "map_option reticleVisible
     (run [SessionStart,
           Frame (Some \<lparr>referenceSpace = True, xrSession = True, hitTestResults = Results []\<rparr>),
           HitTestSourceReady,
           Frame (Some \<lparr>referenceSpace = True, xrSession = True, hitTestResults = Results [Pose None]\<rparr>)]
        (initialSession True []))
     = Some False
   \<and> reticleVisible
     (render_v1 (Some \<lparr>referenceSpace = True, xrSession = True, hitTestResults = Results []\<rparr>)
       (render_v1 (Some \<lparr>referenceSpace = True, xrSession = True,
                      hitTestResults = Results [Pose (Some [1, 0, 0, 0,  0, 1, 0, 0,  0, 0, 1, 0,  0.5, 0, -1, 1])]\<rparr>)
         (onHitTestSource
           (render_v1 (Some \<lparr>referenceSpace = True, xrSession = True, hitTestResults = Results []\<rparr>)
             (onSessionStart (initialSession True []))))))"
  by code_simp

subsection \<open>Placement\<close>

text \<open>
  Claim C6, as the code has it. With the reticle visible and a template loaded, a
  \<open>select\<close> appends exactly one new object to the heap, the scene and the list of
  placed objects: a copy of the template (it shows the same content) that is visible and
  whose position is the translation of the reticle's matrix. The objects that were there,
  the template and the reticle are unchanged. After three such calls three new objects
  are placed, in order, at addresses that differ from each other and from the template's,
  and changing the pose of any object of the heap changes no other object. (In every
  state reached from the initial one the template is an object of the heap, so the third
  hypothesis holds there.)
\<close>

theorem place_appends_independent_copy:
  assumes "reticleVisible s" and "modelRef s = Some t" and "t < length (objects s)"
  shows "(\<exists>c. objects (onSelect s) = objects s @ [c]
            \<and> content c = content (objects s ! t)
            \<and> position c = setFromMatrixPosition (reticleMatrix s)
            \<and> visible c)
       \<and> placedObjects (onSelect s) = placedObjects s @ [length (objects s)]
       \<and> scene (onSelect s) = scene s @ [length (objects s)]
       \<and> modelRef (onSelect s) = Some t
       \<and> reticleVisible (onSelect s) \<and> reticleMatrix (onSelect s) = reticleMatrix s
       \<and> placedObjects (onSelect (onSelect (onSelect s)))
           = placedObjects s @ [length (objects s), length (objects s) + 1, length (objects s) + 2]
       \<and> (\<exists>c1 c2 c3. objects (onSelect (onSelect (onSelect s))) = objects s @ [c1, c2, c3]
            \<and> list_all (\<lambda>c. content c = content (objects s ! t)
                            \<and> position c = setFromMatrixPosition (reticleMatrix s)
                            \<and> visible c) [c1, c2, c3])
       \<and> distinct [t, length (objects s), length (objects s) + 1, length (objects s) + 2]
       \<and> (\<forall>a b p r. a < length (objects (onSelect (onSelect (onSelect s)))) \<and> b \<noteq> a \<longrightarrow>
             objects (setPose a p r (onSelect (onSelect (onSelect s)))) ! b
               = objects (onSelect (onSelect (onSelect s))) ! b
           \<and> position (objects (setPose a p r (onSelect (onSelect (onSelect s)))) ! a) = p
           \<and> rotation (objects (setPose a p r (onSelect (onSelect (onSelect s)))) ! a) = r)"
proof -
  let ?m = "(objects s ! t)\<lparr>position := setFromMatrixPosition (reticleMatrix s), visible := True\<rparr>"
  have s1: "onSelect s = s\<lparr>objects := objects s @ [?m], scene := scene s @ [length (objects s)],
       placedObjects := placedObjects s @ [length (objects s)]\<rparr>" (is "_ = ?s1")
    by (rule onSelect_places[OF assms(1,2)])
  have s2: "onSelect ?s1 = s\<lparr>objects := objects s @ [?m, ?m],
       scene := scene s @ [length (objects s), length (objects s) + 1],
       placedObjects := placedObjects s @ [length (objects s), length (objects s) + 1]\<rparr>" (is "_ = ?s2")
    using assms by (simp add: onSelect_def Let_def nth_append)
  have s3: "onSelect ?s2 = s\<lparr>objects := objects s @ [?m, ?m, ?m],
       scene := scene s @ [length (objects s), length (objects s) + 1, length (objects s) + 2],
       placedObjects := placedObjects s @ [length (objects s), length (objects s) + 1, length (objects s) + 2]\<rparr>"
    using assms by (simp add: onSelect_def Let_def nth_append)
  have three: "onSelect (onSelect (onSelect s)) = s\<lparr>objects := objects s @ [?m, ?m, ?m],
       scene := scene s @ [length (objects s), length (objects s) + 1, length (objects s) + 2],
       placedObjects := placedObjects s @ [length (objects s), length (objects s) + 1, length (objects s) + 2]\<rparr>"
    by (simp only: s1 s2 s3)
  have indep: "\<forall>a b p r. a < length (objects (onSelect (onSelect (onSelect s)))) \<and> b \<noteq> a \<longrightarrow>
             objects (setPose a p r (onSelect (onSelect (onSelect s)))) ! b
               = objects (onSelect (onSelect (onSelect s))) ! b
           \<and> position (objects (setPose a p r (onSelect (onSelect (onSelect s)))) ! a) = p
           \<and> rotation (objects (setPose a p r (onSelect (onSelect (onSelect s)))) ! a) = r"
    by (simp add: setPose_def)
  have m: "content ?m = content (objects s ! t)"
    "position ?m = setFromMatrixPosition (reticleMatrix s)" "visible ?m"
    by simp_all
  have one: "\<exists>c. objects (onSelect s) = objects s @ [c]
            \<and> content c = content (objects s ! t)
            \<and> position c = setFromMatrixPosition (reticleMatrix s)
            \<and> visible c"
    by (rule exI[of _ ?m]) (simp add: s1)
  have a: "placedObjects (onSelect s) = placedObjects s @ [length (objects s)]"
    "scene (onSelect s) = scene s @ [length (objects s)]"
    "modelRef (onSelect s) = Some t"
    "reticleVisible (onSelect s)" "reticleMatrix (onSelect s) = reticleMatrix s"
    using assms(1,2) by (simp_all add: s1)
  have b: "placedObjects (onSelect (onSelect (onSelect s)))
           = placedObjects s @ [length (objects s), length (objects s) + 1, length (objects s) + 2]"
    by (simp add: three)
  have b': "\<exists>c1 c2 c3. objects (onSelect (onSelect (onSelect s))) = objects s @ [c1, c2, c3]
            \<and> list_all (\<lambda>c. content c = content (objects s ! t)
                            \<and> position c = setFromMatrixPosition (reticleMatrix s)
                            \<and> visible c) [c1, c2, c3]"
    by (rule exI[of _ ?m], rule exI[of _ ?m], rule exI[of _ ?m]) (simp add: three)
  have c: "distinct [t, length (objects s), length (objects s) + 1, length (objects s) + 2]"
    using assms(3) by simp
  from one a b b' c indep show ?thesis by blast
qed

text \<open>
  A session with the fox model loaded, an XR session started and the reticle on a surface:
  three selects place the objects 1, 2 and 3, and moving object 2 leaves the template
  (object 0) and the objects 1 and 3 where they were.
\<close>

theorem place_appends_independent_copy_witness:
  "placedObjects (onSelect (onSelect (onSelect
     (render (Some \<lparr>referenceSpace = True, xrSession = True,
                    hitTestResults = Results [Pose (Some [1, 0, 0, 0,  0, 1, 0, 0,  0, 0, 1, 0,  0.5, 0, -1, 1])]\<rparr>)
        (onHitTestSource (render (Some \<lparr>referenceSpace = True, xrSession = True, hitTestResults = Results []\<rparr>)
           (onSessionStart
              (onLoad 0 \<lparr>content = ''https://example.com/Fox.gltf'', position = (0, 0, 0),
                         rotation = (0, 0, 0), scale = (1, 1, 1), visible = True\<rparr> (0, 0, 0)
                 (loadModel ''https://example.com/Fox.gltf'' (initialSession True [])))))))))) = [1, 2, 3]
   \<and> map position (objects (setPose 2 (7, 8, 9) (0, 1, 0) (onSelect (onSelect (onSelect
     (render (Some \<lparr>referenceSpace = True, xrSession = True,
                    hitTestResults = Results [Pose (Some [1, 0, 0, 0,  0, 1, 0, 0,  0, 0, 1, 0,  0.5, 0, -1, 1])]\<rparr>)
        (onHitTestSource (render (Some \<lparr>referenceSpace = True, xrSession = True, hitTestResults = Results []\<rparr>)
           (onSessionStart
              (onLoad 0 \<lparr>content = ''https://example.com/Fox.gltf'', position = (0, 0, 0),
                         rotation = (0, 0, 0), scale = (1, 1, 1), visible = True\<rparr> (0, 0, 0)
                 (loadModel ''https://example.com/Fox.gltf'' (initialSession True []))))))))))))
     = [(0, 0, -2), (0.5, 0, -1), (7, 8, 9), (0.5, 0, -1)]"
proof -
  let ?s = "render (Some \<lparr>referenceSpace = True, xrSession = True,
                    hitTestResults = Results [Pose (Some [1, 0, 0, 0,  0, 1, 0, 0,  0, 0, 1, 0,  0.5, 0, -1, 1])]\<rparr>)
        (onHitTestSource (render (Some \<lparr>referenceSpace = True, xrSession = True, hitTestResults = Results []\<rparr>)
           (onSessionStart
              (onLoad 0 \<lparr>content = ''https://example.com/Fox.gltf'', position = (0, 0, 0),
                         rotation = (0, 0, 0), scale = (1, 1, 1), visible = True\<rparr> (0, 0, 0)
                 (loadModel ''https://example.com/Fox.gltf'' (initialSession True []))))))"
  have h1: "reticleVisible ?s" by code_simp
  have h2: "modelRef ?s = Some 0" by code_simp
  have h3: "0 < length (objects ?s)" by code_simp
  have p: "placedObjects ?s = []" by code_simp
  have l: "length (objects ?s) = 1" by code_simp
  have m: "map position (objects (setPose 2 (7, 8, 9) (0, 1, 0) (onSelect (onSelect (onSelect ?s)))))
     = [(0, 0, -2), (0.5, 0, -1), (7, 8, 9), (0.5, 0, -1)]" by code_simp
  from place_appends_independent_copy[OF h1 h2 h3]
  have "placedObjects (onSelect (onSelect (onSelect ?s)))
           = placedObjects ?s @ [length (objects ?s), length (objects ?s) + 1, length (objects ?s) + 2]"
    by blast
  then have "placedObjects (onSelect (onSelect (onSelect ?s))) = [1, 2, 3]"
    unfolding p l by simp
  with m show ?thesis by blast
qed

text \<open>
  Claim C6 as stated fails in that the copy does not take the reticle's pose: for a
  reticle lying flat and for a reticle turned by a quarter about the vertical axis, at the
  same point, the placed object is the same, with the rotation of the template.
\<close>

theorem placement_ignores_orientation_counterexample:
  "map_option (last \<circ> objects)
     (run [LoadModel ''https://example.com/Fox.gltf'',
           Loaded 0 \<lparr>content = ''https://example.com/Fox.gltf'', position = (0, 0, 0),
                     rotation = (0, 0, 0), scale = (1, 1, 1), visible = True\<rparr> (0, 0, 0),
           SessionStart,
           Frame (Some \<lparr>referenceSpace = True, xrSession = True, hitTestResults = Results []\<rparr>),
           HitTestSourceReady,
           Frame (Some \<lparr>referenceSpace = True, xrSession = True,
                        hitTestResults = Results [Pose (Some [1, 0, 0, 0,  0, 1, 0, 0,  0, 0, 1, 0,  0.5, 0, -1, 1])]\<rparr>),
           Select]
        (initialSession True []))
     = Some \<lparr>content = ''https://example.com/Fox.gltf'', position = (0.5, 0, -1),
             rotation = (0, 0, 0), scale = (0.05, 0.05, 0.05), visible = True\<rparr>
   \<and> map_option (last \<circ> objects)
     (run [LoadModel ''https://example.com/Fox.gltf'',
           Loaded 0 \<lparr>content = ''https://example.com/Fox.gltf'', position = (0, 0, 0),
                     rotation = (0, 0, 0), scale = (1, 1, 1), visible = True\<rparr> (0, 0, 0),
           SessionStart,
           Frame (Some \<lparr>referenceSpace = True, xrSession = True, hitTestResults = Results []\<rparr>),
           HitTestSourceReady,
           Frame (Some \<lparr>referenceSpace = True, xrSession = True,
                        hitTestResults = Results [Pose (Some [0, 0, -1, 0,  0, 1, 0, 0,  1, 0, 0, 0,  0.5, 0, -1, 1])]\<rparr>),
           Select]
        (initialSession True []))
     = Some \<lparr>content = ''https://example.com/Fox.gltf'', position = (0.5, 0, -1),
             rotation = (0, 0, 0), scale = (0.05, 0.05, 0.05), visible = True\<rparr>
   \<and> map_option reticleMatrix
     (run [LoadModel ''https://example.com/Fox.gltf'',
           Loaded 0 \<lparr>content = ''https://example.com/Fox.gltf'', position = (0, 0, 0),
                     rotation = (0, 0, 0), scale = (1, 1, 1), visible = True\<rparr> (0, 0, 0),
           SessionStart,
           Frame (Some \<lparr>referenceSpace = True, xrSession = True, hitTestResults = Results []\<rparr>),
           HitTestSourceReady,
           Frame (Some \<lparr>referenceSpace = True, xrSession = True,
                        hitTestResults = Results [Pose (Some [0, 0, -1, 0,  0, 1, 0, 0,  1, 0, 0, 0,  0.5, 0, -1, 1])]\<rparr>),
           Select]
        (initialSession True []))
     = Some [0, 0, -1, 0,  0, 1, 0, 0,  1, 0, 0, 0,  0.5, 0, -1, 1]"
  by code_simp

text \<open>
  Claim C9. A \<open>select\<close> while the reticle is hidden or no template is loaded changes
  nothing: the state after it is the state before it.
\<close>

theorem place_without_reticle_or_template_is_noop:
  "\<not> reticleVisible s \<or> modelRef s = None \<Longrightarrow> onSelect s = s"
  by (auto simp: onSelect_def split: option.splits)

theorem place_without_reticle_or_template_is_noop_witness:
  "onSelect (initialSession True []) = initialSession True []
   \<and> onSelect (onLoad 0 \<lparr>content = ''https://example.com/Fox.gltf'', position = (0, 0, 0),
                          rotation = (0, 0, 0), scale = (1, 1, 1), visible = True\<rparr> (0, 0, 0)
                 (loadModel ''https://example.com/Fox.gltf'' (initialSession True [])))
     = onLoad 0 \<lparr>content = ''https://example.com/Fox.gltf'', position = (0, 0, 0),
                 rotation = (0, 0, 0), scale = (1, 1, 1), visible = True\<rparr> (0, 0, 0)
         (loadModel ''https://example.com/Fox.gltf'' (initialSession True []))"
proof -
  let ?s = "onLoad 0 \<lparr>content = ''https://example.com/Fox.gltf'', position = (0, 0, 0),
                          rotation = (0, 0, 0), scale = (1, 1, 1), visible = True\<rparr> (0, 0, 0)
                 (loadModel ''https://example.com/Fox.gltf'' (initialSession True []))"
  have 1: "\<not> reticleVisible (initialSession True []) \<or> modelRef (initialSession True []) = None"
    by (simp add: initialSession_def)
  have "\<not> reticleVisible ?s" by code_simp
  then have 2: "\<not> reticleVisible ?s \<or> modelRef ?s = None" by simp
  from place_without_reticle_or_template_is_noop[OF 1] place_without_reticle_or_template_is_noop[OF 2]
  show ?thesis by simp
qed

end
